theory Spec2Isabelle
  imports Main
begin

section \<open>Text as the program sees it\<close>

text \<open>
  The program is written in Python: a string is a sequence of Unicode code points and
  \<^verbatim>\<open>len\<close> counts code points. The file names it builds contain Hangul, so a character
  is modelled by its code point and a string by the list of its code points. An ASCII
  literal of the source is written \<open>ustr ''...''\<close>; the Hangul literals are spelled out as
  code points next to the source text they stand for.
\<close>

type_synonym uchar = nat
type_synonym ustring = "nat list"

definition ustr :: "string \<Rightarrow> ustring" where
  "ustr s = map of_char s"

subsection \<open>Character classes of the Unicode database\<close>

text \<open>
  \<^verbatim>\<open>str.isspace\<close>, and with it the set of characters \<^verbatim>\<open>str.strip()\<close> trims.
\<close>

definition space_ranges :: "(nat \<times> nat) list" where
  "space_ranges =
     [(0x9, 0xD), (0x1C, 0x20), (0x85, 0x85), (0xA0, 0xA0), (0x1680, 0x1680),
      (0x2000, 0x200A), (0x2028, 0x2029), (0x202F, 0x202F), (0x205F, 0x205F),
      (0x3000, 0x3000)]"

definition in_ranges :: "(nat \<times> nat) list \<Rightarrow> uchar \<Rightarrow> bool" where
  "in_ranges rs c = list_ex (\<lambda>r. fst r \<le> c \<and> c \<le> snd r) rs"

definition isspace :: "uchar \<Rightarrow> bool" where
  "isspace c = in_ranges space_ranges c"

text \<open>
  The decimal digits (\<^verbatim>\<open>str.isdecimal\<close>, the characters \<^verbatim>\<open>int()\<close> reads): every script's
  digits are ten consecutive code points starting at its zero. The table is that of
  Unicode 14.0 (CPython 3.11).
\<close>

definition decimal_zeros :: "nat list" where
  "decimal_zeros =
     [0x30, 0x660, 0x6F0, 0x7C0, 0x966, 0x9E6, 0xA66, 0xAE6, 0xB66, 0xBE6, 0xC66, 0xCE6,
      0xD66, 0xDE6, 0xE50, 0xED0, 0xF20, 0x1040, 0x1090, 0x17E0, 0x1810, 0x1946, 0x19D0,
      0x1A80, 0x1A90, 0x1B50, 0x1BB0, 0x1C40, 0x1C50, 0xA620, 0xA8D0, 0xA900, 0xA9D0,
      0xA9F0, 0xAA50, 0xABF0, 0xFF10, 0x104A0, 0x10D30, 0x11066, 0x110F0, 0x11136,
      0x111D0, 0x112F0, 0x11450, 0x114D0, 0x11650, 0x116C0, 0x11730, 0x118E0, 0x11950,
      0x11C50, 0x11D50, 0x11DA0, 0x16A60, 0x16AC0, 0x16B50, 0x1D7CE, 0x1D7D8, 0x1D7E2,
      0x1D7EC, 0x1D7F6, 0x1E140, 0x1E2F0, 0x1E950, 0x1FBF0]"

definition to_decimal :: "uchar \<Rightarrow> nat option" where
  "to_decimal c =
     (case find (\<lambda>z. z \<le> c \<and> c < z + 10) decimal_zeros of
        None \<Rightarrow> None
      | Some z \<Rightarrow> Some (c - z))"

text \<open>
  \<^verbatim>\<open>str.isdigit\<close> is wider than the decimal digits: it also holds of the characters whose
  numeric type is Digit, such as the superscripts U+00B2, U+00B3, U+00B9 and the circled
  digits, which have no decimal value.
\<close>

definition digit_only_ranges :: "(nat \<times> nat) list" where
  "digit_only_ranges =
     [(0xB2, 0xB3), (0xB9, 0xB9), (0x1369, 0x1371), (0x19DA, 0x19DA), (0x2070, 0x2070),
      (0x2074, 0x2079), (0x2080, 0x2089), (0x2460, 0x2468), (0x2474, 0x247C),
      (0x2488, 0x2490), (0x24EA, 0x24EA), (0x24F5, 0x24FD), (0x24FF, 0x24FF),
      (0x2776, 0x277E), (0x2780, 0x2788), (0x278A, 0x2792), (0x10A40, 0x10A43),
      (0x10E60, 0x10E68), (0x11052, 0x1105A), (0x1F100, 0x1F10A)]"

definition isdigit :: "uchar \<Rightarrow> bool" where
  "isdigit c = (to_decimal c \<noteq> None \<or> in_ranges digit_only_ranges c)"

subsection \<open>String operations\<close>

text \<open>\<^verbatim>\<open>s.strip()\<close>: whitespace is dropped at both ends, never inside.\<close>

definition strip :: "ustring \<Rightarrow> ustring" where
  "strip s = rev (dropWhile isspace (rev (dropWhile isspace s)))"

text \<open>\<^verbatim>\<open>"".join(ch for ch in s if ch.isdigit())\<close>\<close>

definition digits_of :: "ustring \<Rightarrow> ustring" where
  "digits_of s = filter isdigit s"

text \<open>
  The exceptions that reach the handler around the body of \<^verbatim>\<open>on_run\<close>, by the call
  that raises them: \<^verbatim>\<open>int\<close>; a call to the file system (\<^verbatim>\<open>os.makedirs\<close>, \<^verbatim>\<open>im.save\<close>,
  \<^verbatim>\<open>wb.save\<close>); \<^verbatim>\<open>Image.open\<close> and the decoding of the image; \<^verbatim>\<open>load_workbook\<close>;
  \<^verbatim>\<open>ws.append\<close>. The handler treats them all alike.
\<close>

datatype exn = ValueError | OSError | ImageOpenError | WorkbookLoadError | IllegalCharacterError

text \<open>
  \<^verbatim>\<open>int(digits)\<close>, for the strings the program passes to it: those made of \<^verbatim>\<open>isdigit\<close>
  characters only (no sign, blank or underscore to skip). A character without a decimal
  value, or the empty string, is \<^verbatim>\<open>ValueError\<close>; so is a string longer than the
  interpreter's limit on integer strings (\<^verbatim>\<open>sys.get_int_max_str_digits()\<close>: 4300 by
  default from CPython 3.11, 0 for no limit, as in older versions).
\<close>

definition int_of_digits :: "nat \<Rightarrow> ustring \<Rightarrow> exn + int" where
  "int_of_digits lim ds =
     (if ds = [] then Inl ValueError
      else if 0 < lim \<and> lim < length ds then Inl ValueError
      else (case those (map to_decimal ds) of
              None \<Rightarrow> Inl ValueError
            | Some vs \<Rightarrow> Inr (int (foldl (\<lambda>a d. 10 * a + d) 0 vs))))"

section \<open>Names for folders and files\<close>

text \<open>
  \<^verbatim>\<open>
  def sanitize_for_path(name: str) -> str:
      invalid = '\\/:*?"<>|'
      result = "".join("_" if ch in invalid else ch for ch in name)
      return result.strip()
  \<close>
  The nine characters are backslash, slash, colon, asterisk, question mark, double
  quote, less-than, greater-than and the vertical bar.
\<close>

definition invalid :: ustring where
  "invalid = [0x5C, 0x2F, 0x3A, 0x2A, 0x3F, 0x22, 0x3C, 0x3E, 0x7C]"

definition sanitize_for_path :: "ustring \<Rightarrow> ustring" where
  "sanitize_for_path name =
     strip (map (\<lambda>ch. if ch \<in> set invalid then 0x5F else ch) name)"

section \<open>The form\<close>

text \<open>
  The state of the window that the submission reads: one field per Tk variable or
  widget of \<^verbatim>\<open>DogPhotoTool\<close>. \<open>customer_fg\<close> is what
  \<^verbatim>\<open>self.customer_entry.cget("foreground")\<close> gives (\<^verbatim>\<open>"gray"\<close> while the placeholder is
  shown); the three note fields hold the text of their \<^verbatim>\<open>tk.Text\<close> widgets, to which
  \<^verbatim>\<open>get("1.0", "end")\<close> adds a newline.
\<close>

record form =
  before_path :: ustring
  after_path :: ustring
  dog_name :: ustring
  owner_name :: ustring
  customer_raw :: ustring
  customer_fg :: ustring
  style_today :: ustring
  breed_var :: ustring
  breed_other_var :: ustring
  payment_display :: ustring
  payment_state :: ustring
  requirements_text :: ustring
  notes_text :: ustring
  aftercare_text :: ustring
  breeds :: "ustring list"

text \<open>
  The placeholder \<^verbatim>\<open>"010-0000-0000"\<close>, and the sentinel entry of the breed list (the
  Hangul for "other (direct input)", eight code points with ASCII parentheses).
\<close>

definition placeholder :: ustring where
  "placeholder = ustr ''010-0000-0000''"

definition breed_sentinel :: ustring where
  "breed_sentinel = [0xAE30, 0xD0C0, 0x28, 0xC9C1, 0xC811, 0xC785, 0xB825, 0x29]"

text \<open>
  \<^verbatim>\<open>load_breeds_or_die\<close>: the argument is the list of lines of the breed file, or \<open>None\<close>
  when it cannot be read; the result \<open>None\<close> is the exit of the program.
\<close>

definition load_breeds_or_die :: "ustring list option \<Rightarrow> ustring list option" where
  "load_breeds_or_die file =
     (case file of
        None \<Rightarrow> None
      | Some lines \<Rightarrow>
          (let breeds = filter (\<lambda>name. name \<noteq> []) (map strip lines)
           in Some (if breed_sentinel \<in> set breeds then breeds
                    else breeds @ [breed_sentinel])))"

text \<open>
  \<^verbatim>\<open>
  def _on_customer_focus_in(self, event):
      if self.customer_entry.get() == "010-0000-0000" and self.customer_entry.cget("foreground") == "gray":
          self.customer_entry.delete(0, "end")
          self.customer_entry.config(foreground="black")

  def _on_customer_focus_out(self, event):
      if not self.customer_entry.get().strip():
          self.customer_entry.insert(0, "010-0000-0000")
          self.customer_entry.config(foreground="gray")
  \<close>
  The entry shows the variable \<open>customer_raw\<close>. Typing replaces its text and leaves the
  colour alone.
\<close>

definition on_customer_focus_in :: "form \<Rightarrow> form" where
  "on_customer_focus_in f =
     (if customer_raw f = placeholder \<and> customer_fg f = ustr ''gray''
      then f\<lparr>customer_raw := [], customer_fg := ustr ''black''\<rparr>
      else f)"

definition on_customer_focus_out :: "form \<Rightarrow> form" where
  "on_customer_focus_out f =
     (if strip (customer_raw f) = []
      then f\<lparr>customer_raw := placeholder @ customer_raw f, customer_fg := ustr ''gray''\<rparr>
      else f)"

definition type_customer :: "ustring \<Rightarrow> form \<Rightarrow> form" where
  "type_customer s f = f\<lparr>customer_raw := s\<rparr>"

definition reset_inputs :: "form \<Rightarrow> form" where
  "reset_inputs f =
     f\<lparr>before_path := [], after_path := [],
       dog_name := [], owner_name := [],
       customer_raw := placeholder, customer_fg := ustr ''gray'',
       style_today := [],
       breed_var := (case breeds f of [] \<Rightarrow> [] | b # _ \<Rightarrow> b),
       breed_other_var := [],
       payment_display := [], payment_state := ustr ''paid'',
       requirements_text := [], notes_text := [], aftercare_text := []\<rparr>"

section \<open>Step 1 of the submission: validation\<close>

datatype reason =
    MissingPhotos
  | MissingIdentity
  | CustomerNoDigit
  | CustomerBadChar
  | MissingBreedText
  | PaymentNotNumeric
  | FilenameTooLong

text \<open>
  How \<^verbatim>\<open>on_run\<close> ends: an error dialog with its reason and a \<^verbatim>\<open>return\<close>, an exception
  caught by the handler around the whole body (\<^verbatim>\<open>show_unexpected_error\<close>), or the
  completion message.
\<close>

datatype outcome = Rejected reason | Unexpected exn | Saved

text \<open>
  \<^verbatim>\<open>
  raw_customer = self.customer_raw.get().strip()
  if raw_customer == "010-0000-0000" and self.customer_entry.cget("foreground") == "gray":
      raw_customer = ""
  \<close>
\<close>

definition raw_customer_of :: "form \<Rightarrow> ustring" where
  "raw_customer_of f =
     (let raw_customer = strip (customer_raw f)
      in if raw_customer = placeholder \<and> customer_fg f = ustr ''gray'' then []
         else raw_customer)"

text \<open>
  \<^verbatim>\<open>
  digits_only = "".join(ch for ch in raw_customer if ch.isdigit())
  if not digits_only:
      ... return
  if any(not (ch.isdigit() or ch in "- ") for ch in raw_customer):
      ... return
  customer_no = digits_only
  \<close>
\<close>

definition customer_number :: "ustring \<Rightarrow> reason + ustring" where
  "customer_number raw_customer =
     (let digits_only = digits_of raw_customer
      in if digits_only = [] then Inl CustomerNoDigit
         else if list_ex (\<lambda>ch. \<not> (isdigit ch \<or> ch \<in> set (ustr ''- ''))) raw_customer
         then Inl CustomerBadChar
         else Inr digits_only)"

text \<open>
  \<^verbatim>\<open>
  selected_breed = self.breed_var.get().strip()
  if selected_breed == SENTINEL:      # the literal of breed_sentinel
      breed = self.breed_other_var.get().strip()
      if not breed:
          ... return
  else:
      breed = selected_breed
  \<close>
\<close>

definition breed_of :: "ustring \<Rightarrow> ustring \<Rightarrow> reason + ustring" where
  "breed_of selected other =
     (let selected_breed = strip selected
      in if selected_breed = breed_sentinel
         then (let breed = strip other
               in if breed = [] then Inl MissingBreedText else Inr breed)
         else Inr selected_breed)"

text \<open>
  \<^verbatim>\<open>
  raw_pay = self.payment_display.get().strip()
  if raw_pay:
      digits = "".join(ch for ch in raw_pay if ch.isdigit())
      if not digits:
          ... return
      payment_amount = int(digits)
  else:
      payment_amount = 0
  \<close>
  Nothing here catches what \<^verbatim>\<open>int\<close> raises, so it reaches the handler around the body.
\<close>

definition payment_of :: "nat \<Rightarrow> ustring \<Rightarrow> outcome + int" where
  "payment_of lim display =
     (let raw_pay = strip display
      in if raw_pay \<noteq> []
         then (let digits = digits_of raw_pay
               in if digits = [] then Inl (Rejected PaymentNotNumeric)
                  else (case int_of_digits lim digits of
                          Inl e \<Rightarrow> Inl (Unexpected e)
                        | Inr n \<Rightarrow> Inr n))
         else Inr 0)"

text \<open>
  The sibling handler of the payment field, run when the field loses the focus, does
  catch it:
  \<^verbatim>\<open>
  def on_payment_focus_out(self, event=None):
      raw = self.payment_display.get().strip()
      if not raw:
          return
      digits = "".join(ch for ch in raw if ch.isdigit())
      if not digits:
          messagebox.showerror(...); self.payment_display.set(""); return
      try:
          value = int(digits)
          self.payment_display.set(f"{value:,}")
      except ValueError:
          messagebox.showerror(..., "the payment amount cannot be interpreted", parent=self)
          self.payment_display.set("")
  \<close>
  The result is the new text of the field, with the dialog shown if any. The thousands
  separator of \<^verbatim>\<open>f"{value:,}"\<close> is put in by \<open>group_thousands\<close>.
\<close>

datatype payment_dialog = NotNumeric | NotInterpretable

fun digits_of_nat :: "nat \<Rightarrow> ustring" where
  "digits_of_nat n = (if n < 10 then [0x30 + n] else digits_of_nat (n div 10) @ [0x30 + n mod 10])"

declare digits_of_nat.simps [simp del]

fun group_rev :: "ustring \<Rightarrow> ustring" where
  "group_rev (a # b # c # d # rest) = a # b # c # 0x2C # group_rev (d # rest)"
| "group_rev ds = ds"

definition group_thousands :: "nat \<Rightarrow> ustring" where
  "group_thousands n = rev (group_rev (rev (digits_of_nat n)))"

definition on_payment_focus_out :: "nat \<Rightarrow> ustring \<Rightarrow> ustring \<times> payment_dialog option" where
  "on_payment_focus_out lim display =
     (let raw = strip display
      in if raw = [] then (display, None)
         else (let digits = digits_of raw
               in if digits = [] then ([], Some NotNumeric)
                  else (case int_of_digits lim digits of
                          Inr v \<Rightarrow> (group_thousands (nat v), None)
                        | Inl e \<Rightarrow> ([], Some NotInterpretable))))"

text \<open>What the interpreter and the operating system contribute.\<close>

record platform =
  ext_of :: "ustring \<Rightarrow> ustring"
  int_max_str_digits :: nat

text \<open>
  \<open>ext_of p\<close> is \<^verbatim>\<open>os.path.splitext(p)[1].lower()\<close>, the one expression through which
  the program looks at a path; \<open>int_max_str_digits\<close> is the limit described at
  \<open>int_of_digits\<close>.
\<close>

record validated =
  customer_no :: ustring
  v_owner_name :: ustring
  v_dog_name :: ustring
  breed :: ustring
  v_style_today :: ustring
  requirements :: ustring
  v_notes :: ustring
  aftercare :: ustring
  payment_amount :: int
  payment_label :: ustring

text \<open>The two labels of the payment status, "payment complete" and "before deposit".\<close>

definition label_paid :: ustring where
  "label_paid = [0xACB0, 0xC81C, 0xC644, 0xB8CC]"

definition label_pending :: ustring where
  "label_pending = [0xC785, 0xAE08, 0x20, 0xC804]"

text \<open>
  Lines 451 to 505 of \<^verbatim>\<open>on_run\<close>: the checks in the order of the source, each ending the
  submission at its first failure, then the values read without a check.
\<close>

definition validate_inputs :: "platform \<Rightarrow> form \<Rightarrow> outcome + validated" where
  "validate_inputs pf f =
     (if before_path f = [] \<or> after_path f = [] then Inl (Rejected MissingPhotos)
      else
        (let dog = strip (dog_name f);
             owner = strip (owner_name f);
             raw_customer = raw_customer_of f
         in if dog = [] \<or> owner = [] \<or> raw_customer = [] then Inl (Rejected MissingIdentity)
            else
              (case customer_number raw_customer of
                 Inl r \<Rightarrow> Inl (Rejected r)
               | Inr cno \<Rightarrow>
                   (case breed_of (breed_var f) (breed_other_var f) of
                      Inl r \<Rightarrow> Inl (Rejected r)
                    | Inr b \<Rightarrow>
                        (case payment_of (int_max_str_digits pf) (payment_display f) of
                           Inl out \<Rightarrow> Inl out
                         | Inr amount \<Rightarrow>
                             Inr \<lparr>customer_no = cno,
                                  v_owner_name = owner,
                                  v_dog_name = dog,
                                  breed = b,
                                  v_style_today = strip (style_today f),
                                  requirements = strip (requirements_text f @ [0xA]),
                                  v_notes = strip (notes_text f @ [0xA]),
                                  aftercare = strip (aftercare_text f @ [0xA]),
                                  payment_amount = amount,
                                  payment_label =
                                    (if payment_state f = ustr ''paid'' then label_paid
                                     else label_pending)\<rparr>)))))"

section \<open>Step 2: the folder and the two file names\<close>

text \<open>
  The clock is read once (\<^verbatim>\<open>now = datetime.now()\<close>) and formatted twice:
  \<open>dt_str\<close> is \<^verbatim>\<open>now.strftime("%Y%m%d%H%M")\<close> and \<open>record_time\<close> is
  \<^verbatim>\<open>now.strftime("%Y-%m-%d %H:%M")\<close>.
\<close>

record clock =
  dt_str :: ustring
  record_time :: ustring

text \<open>
  The suffixes \<^verbatim>\<open>" - <before>"\<close> and \<^verbatim>\<open>" - <after>"\<close> of the f-strings: blank, hyphen,
  blank and three Hangul syllables each.
\<close>

definition suffix_before :: ustring where
  "suffix_before = [0x20, 0x2D, 0x20, 0xBBF8, 0xC6A9, 0xC804]"

definition suffix_after :: ustring where
  "suffix_after = [0x20, 0x2D, 0x20, 0xBBF8, 0xC6A9, 0xD6C4]"

text \<open>
  \<^verbatim>\<open>
  folder_name = f"{customer_no} - {owner_name} - {dog_name}"
  folder_name = sanitize_for_path(folder_name)
  ...
  prefix = f"{customer_no} - {owner_name} - {dog_name} - {dt_str}"
  prefix = sanitize_for_path(prefix)
  ext_before = os.path.splitext(before)[1].lower()
  ext_after = os.path.splitext(after)[1].lower()
  name_before = f"{prefix} - <before>{ext_before}"
  name_after = f"{prefix} - <after>{ext_after}"
  \<close>
\<close>

definition folder_name :: "validated \<Rightarrow> ustring" where
  "folder_name v =
     sanitize_for_path
       (customer_no v @ ustr '' - '' @ v_owner_name v @ ustr '' - '' @ v_dog_name v)"

definition prefix_of :: "clock \<Rightarrow> validated \<Rightarrow> ustring" where
  "prefix_of now v =
     sanitize_for_path
       (customer_no v @ ustr '' - '' @ v_owner_name v @ ustr '' - '' @ v_dog_name v
          @ ustr '' - '' @ dt_str now)"

definition name_before :: "platform \<Rightarrow> clock \<Rightarrow> form \<Rightarrow> validated \<Rightarrow> ustring" where
  "name_before pf now f v = prefix_of now v @ suffix_before @ ext_of pf (before_path f)"

definition name_after :: "platform \<Rightarrow> clock \<Rightarrow> form \<Rightarrow> validated \<Rightarrow> ustring" where
  "name_after pf now f v = prefix_of now v @ suffix_after @ ext_of pf (after_path f)"

section \<open>The files and the log\<close>

text \<open>
  What the submission reads and writes outside the window.
  \<^item> \<open>photos\<close>: the images that \<^verbatim>\<open>Image.open\<close> can decode, by the path the operator
    chose; the value stands for the picture. A path without one makes
    \<^verbatim>\<open>save_image_copy\<close> raise.
  \<^item> \<open>root_dir\<close> and \<open>folders\<close>: whether the output root exists beside the program,
    and the customer folders in it. A folder name is one path component: the
    sanitizer has replaced both separators.
  \<^item> \<open>saved\<close>: the files written into the customer folders, by folder and file name,
    with the format they were encoded in.
  \<^item> \<open>log\<close>: the workbook \<^verbatim>\<open>customer_data.xlsx\<close>: absent, a workbook with the rows of
    its active sheet, or a file that \<^verbatim>\<open>load_workbook\<close> cannot open. A row is the list
    of values handed to \<^verbatim>\<open>ws.append\<close>; how the library writes them into the file is
    not modelled.
  \<^item> \<open>can_make_root\<close>, \<open>can_make_folder\<close>, \<open>can_save_image\<close>, \<open>can_save_log\<close>: what
    the file system accepts. Each is the success of one call that can raise
    \<^verbatim>\<open>OSError\<close> (a name that is too long, a directory that cannot be written, a
    workbook that another program holds open): \<^verbatim>\<open>os.mkdir\<close> of the output root and
    of a customer folder, \<^verbatim>\<open>im.save\<close> of a file, \<^verbatim>\<open>wb.save\<close> of the log in the state
    it is in. The submission never changes them.
  The flattening of transparency and the conversion to RGB are not modelled: a saved
  file records the picture it was made from. A source photo is taken to lie outside
  the output directory, and a write that is refused to leave no file.
\<close>

datatype img_format = JPEG | PNG

datatype cell = S ustring | N int

record workbook =
  title :: ustring
  rows :: "cell list list"

datatype log_store = Absent | Sheet workbook | Corrupt

record world =
  photos :: "ustring \<Rightarrow> nat option"
  root_dir :: bool
  folders :: "ustring set"
  saved :: "ustring \<times> ustring \<Rightarrow> (img_format \<times> nat) option"
  log :: log_store
  can_make_root :: bool
  can_make_folder :: "ustring \<Rightarrow> bool"
  can_save_image :: "ustring \<times> ustring \<Rightarrow> bool"
  can_save_log :: "log_store \<Rightarrow> bool"

text \<open>
  \<^verbatim>\<open>os.makedirs(dest_folder, exist_ok=True)\<close>, with the output root as parent: the
  library makes the parent first if it is missing, then the folder, and passes over a
  folder that is already there. The result is the exception, if one is raised, and the
  world as the call leaves it: a root that was made stays when the folder is refused.
\<close>

definition makedirs :: "ustring \<Rightarrow> world \<Rightarrow> exn option \<times> world" where
  "makedirs folder w =
     (if root_dir w \<or> can_make_root w
      then
        (let w1 = w\<lparr>root_dir := True\<rparr>
         in if folder \<in> folders w then (None, w1)
            else if can_make_folder w folder
            then (None, w1\<lparr>folders := insert folder (folders w)\<rparr>)
            else (Some OSError, w1))
      else (Some OSError, w))"

text \<open>
  \<^verbatim>\<open>
  def save_image_copy(self, src, dest):
      im = Image.open(src)
      ext = os.path.splitext(dest)[1].lower()
      ...
      if ext in (".jpg", ".jpeg"):
          im.save(dest, format="JPEG", quality=95)
      else:
          im.save(dest, format="PNG")
  \<close>
  \<open>dest\<close> is the pair of the folder and the file name; its extension is that of the
  file name. \<open>Inl\<close> is the exception: that of \<^verbatim>\<open>Image.open\<close> and of the decoding for a
  path without a picture, that of \<^verbatim>\<open>im.save\<close> for a file the file system refuses.
\<close>

definition save_image_copy ::
  "platform \<Rightarrow> ustring \<Rightarrow> ustring \<times> ustring \<Rightarrow> world \<Rightarrow> exn + world" where
  "save_image_copy pf src dest w =
     (case photos w src of
        None \<Rightarrow> Inl ImageOpenError
      | Some im \<Rightarrow>
          (let ext = ext_of pf (snd dest)
           in if ext \<in> {ustr ''.jpg'', ustr ''.jpeg''}
              then (if can_save_image w dest
                    then Inr (w\<lparr>saved := (saved w)(dest \<mapsto> (JPEG, im))\<rparr>)
                    else Inl OSError)
              else (if can_save_image w dest
                    then Inr (w\<lparr>saved := (saved w)(dest \<mapsto> (PNG, im))\<rparr>)
                    else Inl OSError)))"

text \<open>
  The sheet title and the thirteen header cells of \<^verbatim>\<open>ensure_excel_file\<close>, in the order
  of the source: record time, customer number, owner name, dog name, breed, today's
  style, customer requirements, notes during grooming, aftercare, payment amount,
  payment status, file name of the photo before, file name of the photo after.
\<close>

definition sheet_title :: ustring where
  "sheet_title = [0xACE0, 0xAC1D, 0xAE30, 0xB85D]"

definition header_row :: "cell list" where
  "header_row =
     [S [0xAE30, 0xB85D, 0xC2DC, 0xAC01],
      S [0xACE0, 0xAC1D, 0xBC88, 0xD638],
      S [0xBCF4, 0xD638, 0xC790, 0x20, 0xC774, 0xB984],
      S [0xAC15, 0xC544, 0xC9C0, 0x20, 0xC774, 0xB984],
      S [0xD488, 0xC885],
      S [0xC624, 0xB298, 0x20, 0xBBF8, 0xC6A9, 0x20, 0xC2A4, 0xD0C0, 0xC77C],
      S [0xACE0, 0xAC1D, 0x20, 0xC694, 0xAD6C, 0xC0AC, 0xD56D],
      S [0xBBF8, 0xC6A9, 0x20, 0xC911, 0x20, 0xD2B9, 0xC774, 0xC0AC, 0xD56D],
      S [0xC560, 0xD504, 0xD130, 0x20, 0xCF00, 0xC5B4],
      S [0xACB0, 0xC81C, 0xAE08, 0xC561],
      S [0xACB0, 0xC81C, 0xC0C1, 0xD0DC],
      S [0xBBF8, 0xC6A9, 0x20, 0xC804, 0x20, 0xC0AC, 0xC9C4, 0xD30C, 0xC77C, 0xBA85],
      S [0xBBF8, 0xC6A9, 0x20, 0xD6C4, 0x20, 0xC0AC, 0xC9C4, 0xD30C, 0xC77C, 0xBA85]]"

text \<open>
  \<^verbatim>\<open>
  def ensure_excel_file(path: str):
      if not os.path.exists(path):
          wb = Workbook(); ws = wb.active
          ws.title = ...; ws.append([...]); wb.save(path)

  def append_excel_row(path: str, row):
      ensure_excel_file(path)
      wb = load_workbook(path)
      ws = wb.active
      ws.append(row)
      wb.save(path)
  \<close>
  Each of the two returns the exception, if one is raised, and the world as it is
  then. Four calls can raise: \<^verbatim>\<open>wb.save\<close> of the new workbook; \<^verbatim>\<open>load_workbook\<close>, on a
  file it cannot open; \<^verbatim>\<open>ws.append\<close>, which refuses a text cell holding one of the
  control characters the workbook format excludes (U+0000 to U+0008, U+000B, U+000C,
  U+000E to U+001F); and the last \<^verbatim>\<open>wb.save\<close>. A workbook that was created with its
  header stays when a later call raises.
\<close>

definition illegal_char :: "uchar \<Rightarrow> bool" where
  "illegal_char c = (c \<le> 8 \<or> c = 11 \<or> c = 12 \<or> (14 \<le> c \<and> c \<le> 31))"

definition cell_ok :: "cell \<Rightarrow> bool" where
  "cell_ok c = (case c of S s \<Rightarrow> list_all (\<lambda>ch. \<not> illegal_char ch) s | N n \<Rightarrow> True)"

definition ensure_excel_file :: "world \<Rightarrow> exn option \<times> world" where
  "ensure_excel_file w =
     (case log w of
        Absent \<Rightarrow>
          (if can_save_log w Absent
           then (None, w\<lparr>log := Sheet \<lparr>title = sheet_title, rows = [header_row]\<rparr>\<rparr>)
           else (Some OSError, w))
      | _ \<Rightarrow> (None, w))"

definition append_excel_row :: "cell list \<Rightarrow> world \<Rightarrow> exn option \<times> world" where
  "append_excel_row row w =
     (case ensure_excel_file w of
        (Some e, w1) \<Rightarrow> (Some e, w1)
      | (None, w1) \<Rightarrow>
          (case log w1 of
             Sheet wb \<Rightarrow>
               (if list_all cell_ok row
                then (if can_save_log w1 (log w1)
                      then (None, w1\<lparr>log := Sheet (wb\<lparr>rows := rows wb @ [row]\<rparr>)\<rparr>)
                      else (Some OSError, w1))
                else (Some IllegalCharacterError, w1))
           | _ \<Rightarrow> (Some WorkbookLoadError, w1)))"

section \<open>The submission\<close>

text \<open>
  The row of step 4. \<^verbatim>\<open>os.path.basename(dest_before)\<close> is the file name: it was joined
  to the folder as one component.
\<close>

definition row_of :: "platform \<Rightarrow> clock \<Rightarrow> form \<Rightarrow> validated \<Rightarrow> cell list" where
  "row_of pf now f v =
     [S (record_time now),
      S (customer_no v),
      S (v_owner_name v),
      S (v_dog_name v),
      S (breed v),
      S (v_style_today v),
      S (requirements v),
      S (v_notes v),
      S (aftercare v),
      N (payment_amount v),
      S (payment_label v),
      S (name_before pf now f v),
      S (name_after pf now f v)]"

text \<open>
  \<^verbatim>\<open>on_run\<close>, from the form and the world to the way it ends, the form and the world
  after it. The order is the source's: validation; the folder is made; the two names
  are built and their lengths checked; the two images are saved; the row is appended;
  the form is reset. An exception of any of these calls leaves through the handler
  around the body, with whatever was done before it.
\<close>

definition on_run :: "platform \<Rightarrow> clock \<Rightarrow> form \<Rightarrow> world \<Rightarrow> outcome \<times> form \<times> world" where
  "on_run pf now f w =
     (case validate_inputs pf f of
        Inl out \<Rightarrow> (out, f, w)
      | Inr v \<Rightarrow>
          (case makedirs (folder_name v) w of
             (Some e, w1) \<Rightarrow> (Unexpected e, f, w1)
           | (None, w1) \<Rightarrow>
               (let nb = name_before pf now f v;
                    na = name_after pf now f v
                in if 100 < length nb \<or> 100 < length na
                   then (Rejected FilenameTooLong, f, w1)
                   else
                     (case save_image_copy pf (before_path f) (folder_name v, nb) w1 of
                        Inl e \<Rightarrow> (Unexpected e, f, w1)
                      | Inr w2 \<Rightarrow>
                          (case save_image_copy pf (after_path f) (folder_name v, na) w2 of
                             Inl e \<Rightarrow> (Unexpected e, f, w2)
                           | Inr w3 \<Rightarrow>
                               (case append_excel_row (row_of pf now f v) w3 of
                                  (Some e, w4) \<Rightarrow> (Unexpected e, f, w4)
                                | (None, w4) \<Rightarrow> (Saved, reset_inputs f, w4)))))))"

text \<open>
  \<^verbatim>\<open>
  def set_photo(self, which: str, path: str):
      if not os.path.isfile(path): ... return
      ext = os.path.splitext(path)[1].lower()
      if ext not in (".jpg", ".jpeg", ".png"): ... return
      try:
          thumb = load_image_for_thumbnail(path)
      except Exception as e: ... return
      if which == "before":
          self.before_path.set(path) ...
      else:
          self.after_path.set(path) ...
  \<close>
  This is the only place that stores a path in the form. A path that is no file and a
  file that cannot be decoded are both a path without a picture in \<open>photos\<close>; all
  three refusals leave the form as it is, so their order does not show.
  \<open>photo_ok\<close> is what \<^verbatim>\<open>set_photo\<close> leaves true of a stored path.
\<close>

definition allowed_exts :: "ustring list" where
  "allowed_exts = [ustr ''.jpg'', ustr ''.jpeg'', ustr ''.png'']"

datatype which = Before | After

definition set_photo :: "platform \<Rightarrow> world \<Rightarrow> which \<Rightarrow> ustring \<Rightarrow> form \<Rightarrow> form" where
  "set_photo pf w wh path f =
     (if ext_of pf path \<notin> set allowed_exts then f
      else if photos w path = None then f
      else (case wh of
              Before \<Rightarrow> f\<lparr>before_path := path\<rparr>
            | After \<Rightarrow> f\<lparr>after_path := path\<rparr>))"

definition photo_ok :: "platform \<Rightarrow> ustring \<Rightarrow> bool" where
  "photo_ok pf path = (path = [] \<or> ext_of pf path \<in> set allowed_exts)"

text \<open>
  A platform to run examples on. The extension is computed as \<^verbatim>\<open>posixpath.splitext\<close>
  does: it starts at the last dot of the last component of the path, provided a
  character other than a dot stands before that dot in the component, and is empty
  otherwise; then the ASCII capitals are lowered. That is the library's result for an
  ASCII path with the slash as its separator.
\<close>

definition ascii_lower :: "uchar \<Rightarrow> uchar" where
  "ascii_lower c = (if 0x41 \<le> c \<and> c \<le> 0x5A then c + 0x20 else c)"

definition ascii_ext :: "ustring \<Rightarrow> ustring" where
  "ascii_ext p =
     (let base = rev (takeWhile (\<lambda>c. c \<noteq> 0x2F) (rev p));
          after_dot = rev (takeWhile (\<lambda>c. c \<noteq> 0x2E) (rev base));
          stem = take (length base - length after_dot - 1) base
      in if 0x2E \<in> set base \<and> list_ex (\<lambda>c. c \<noteq> 0x2E) stem
         then map ascii_lower (0x2E # after_dot)
         else [])"

text \<open>
  The length of a name in the bytes of its UTF-8 encoding, which is what a file system
  with names of at most 255 bytes measures.
\<close>

definition utf8_length :: "ustring \<Rightarrow> nat" where
  "utf8_length s =
     sum_list (map (\<lambda>c. if c < 0x80 then 1 else if c < 0x800 then 2
                         else if c < 0x10000 then 3 else 4) s)"

definition cpython311 :: platform where
  "cpython311 = \<lparr>ext_of = ascii_ext, int_max_str_digits = 4300\<rparr>"

section \<open>A running example\<close>

text \<open>
  The submission of the end-to-end example: owner Kim, dog Mango, telephone
  010-1234-5678, breed Poodle, payment 15000, into an empty output directory with no
  log yet, on a file system that takes names of up to 255 bytes.
\<close>

definition example_clock :: clock where
  "example_clock =
     \<lparr>dt_str = ustr ''202512071434'', record_time = ustr ''2025-12-07 14:34''\<rparr>"

definition example_form :: form where
  "example_form =
     \<lparr>before_path = ustr ''/in/before.JPG'',
      after_path = ustr ''/in/after.png'',
      dog_name = ustr ''Mango'',
      owner_name = ustr '' Kim'',
      customer_raw = ustr ''010-1234-5678'',
      customer_fg = ustr ''black'',
      style_today = ustr ''teddy cut'',
      breed_var = ustr ''Poodle'',
      breed_other_var = [],
      payment_display = ustr ''15,000'',
      payment_state = ustr ''paid'',
      requirements_text = ustr ''short ears'',
      notes_text = [],
      aftercare_text = [],
      breeds = [ustr ''Poodle'', breed_sentinel]\<rparr>"

definition example_world :: world where
  "example_world =
     \<lparr>photos = [ustr ''/in/before.JPG'' \<mapsto> 1, ustr ''/in/after.png'' \<mapsto> 2],
      root_dir = False,
      folders = {},
      saved = Map.empty,
      log = Absent,
      can_make_root = True,
      can_make_folder = (\<lambda>name. utf8_length name \<le> 255),
      can_save_image = (\<lambda>dest. utf8_length (snd dest) \<le> 255),
      can_save_log = (\<lambda>lg. True)\<rparr>"

text \<open>What validation makes of the example form.\<close>

definition example_record :: validated where
  "example_record =
     \<lparr>customer_no = ustr ''01012345678'', v_owner_name = ustr ''Kim'',
      v_dog_name = ustr ''Mango'', breed = ustr ''Poodle'',
      v_style_today = ustr ''teddy cut'', requirements = ustr ''short ears'',
      v_notes = [], aftercare = [], payment_amount = 15000,
      payment_label = label_paid\<rparr>"

text \<open>An owner name of ninety letters, for a file name that is too long.\<close>

definition long_name :: ustring where
  "long_name =
     ustr ''AAAAAAAAAAAAAAAAAAAAAAAAAAAAAAAAAAAAAAAAAAAAAAAAAAAAAAAAAAAAAAAAAAAAAAAAAAAAAAAAAAAAAAAAAA''"

text \<open>The folder and the two file names of the example.\<close>

definition example_folder :: ustring where
  "example_folder = ustr ''01012345678 - Kim - Mango''"

definition example_name_before :: ustring where
  "example_name_before =
     ustr ''01012345678 - Kim - Mango - 202512071434'' @ suffix_before @ ustr ''.jpg''"

definition example_name_after :: ustring where
  "example_name_after =
     ustr ''01012345678 - Kim - Mango - 202512071434'' @ suffix_after @ ustr ''.png''"

definition example_row :: "cell list" where
  "example_row =
     [S (ustr ''2025-12-07 14:34''), S (ustr ''01012345678''), S (ustr ''Kim''),
      S (ustr ''Mango''), S (ustr ''Poodle''), S (ustr ''teddy cut''),
      S (ustr ''short ears''), S [], S [], N 15000, S label_paid,
      S example_name_before, S example_name_after]"

text \<open>
  The same submission with the long owner name, and the world in which the photo
  after grooming has disappeared since it was chosen.
\<close>

definition long_form :: form where
  "long_form = example_form\<lparr>owner_name := long_name\<rparr>"

definition long_record :: validated where
  "long_record = example_record\<lparr>v_owner_name := long_name\<rparr>"

definition long_folder :: ustring where
  "long_folder = ustr ''01012345678 - '' @ long_name @ ustr '' - Mango''"

definition half_world :: world where
  "half_world = example_world\<lparr>photos := [ustr ''/in/before.JPG'' \<mapsto> 1]\<rparr>"

text \<open>A world in which the directory of the program cannot be written.\<close>

definition readonly_world :: world where
  "readonly_world = example_world\<lparr>can_make_root := False\<rparr>"



lemmas unicode_defs =
  ustr_def isspace_def in_ranges_def space_ranges_def to_decimal_def decimal_zeros_def
  digit_only_ranges_def isdigit_def strip_def digits_of_def int_of_digits_def invalid_def
  sanitize_for_path_def

lemmas form_defs =
  placeholder_def breed_sentinel_def raw_customer_of_def customer_number_def breed_of_def
  payment_of_def validate_inputs_def label_paid_def label_pending_def

lemmas run_defs =
  suffix_before_def suffix_after_def folder_name_def prefix_of_def name_before_def
  name_after_def makedirs_def save_image_copy_def ensure_excel_file_def
  append_excel_row_def row_of_def on_run_def reset_inputs_def ascii_lower_def ascii_ext_def
  cpython311_def

lemmas example_defs =
  example_clock_def example_form_def example_world_def long_name_def

section \<open>Facts about trimming\<close>

lemma rev_dropWhile_split:
  "rev (dropWhile P (rev t)) @ rev (takeWhile P (rev t)) = t"
proof -
  have "rev (takeWhile P (rev t) @ dropWhile P (rev t)) = rev (rev t)"
    by (simp only: takeWhile_dropWhile_id)
  then show ?thesis
    by (simp only: rev_append rev_rev_ident)
qed

lemma strip_split:
  "dropWhile isspace s = strip s @ rev (takeWhile isspace (rev (dropWhile isspace s)))"
  unfolding strip_def by (rule rev_dropWhile_split [symmetric])

lemma strip_decomp:
  "\<exists>pre post. s = pre @ strip s @ post \<and> (\<forall>c\<in>set pre. isspace c) \<and> (\<forall>c\<in>set post. isspace c)"
proof -
  let ?post = "rev (takeWhile isspace (rev (dropWhile isspace s)))"
  have "s = takeWhile isspace s @ dropWhile isspace s"
    by simp
  then have s: "s = takeWhile isspace s @ strip s @ ?post"
    using strip_split [of s] by simp
  have pre: "\<forall>c\<in>set (takeWhile isspace s). isspace c"
    by (auto dest: set_takeWhileD)
  have post: "\<forall>c\<in>set ?post. isspace c"
    by (auto dest: set_takeWhileD)
  from s pre post show ?thesis by blast
qed

lemma set_strip: "set (strip s) \<subseteq> set s"
  by (auto simp: strip_def dest!: set_dropWhileD)

lemma length_strip: "length (strip s) \<le> length s"
  using length_dropWhile_le [of isspace "rev (dropWhile isspace s)"]
    length_dropWhile_le [of isspace s]
  by (simp add: strip_def)

lemma strip_last: "strip s \<noteq> [] \<Longrightarrow> \<not> isspace (last (strip s))"
  by (simp add: strip_def last_rev hd_dropWhile)

lemma strip_hd:
  assumes "strip s \<noteq> []"
  shows "\<not> isspace (hd (strip s))"
proof -
  let ?t = "dropWhile isspace s"
  from assms strip_split [of s] have ne: "?t \<noteq> []"
    by (metis append_is_Nil_conv)
  then have "\<not> isspace (hd ?t)"
    by (rule hd_dropWhile)
  moreover from assms strip_split [of s] have "hd ?t = hd (strip s)"
    by (metis hd_append2)
  ultimately show ?thesis by simp
qed

lemma strip_fixed:
  assumes "s = [] \<or> (\<not> isspace (hd s) \<and> \<not> isspace (last s))"
  shows "strip s = s"
proof (cases "s = []")
  case True
  then show ?thesis by (simp add: strip_def)
next
  case False
  with assms have h: "\<not> isspace (hd s)" and l: "\<not> isspace (last s)"
    by auto
  from False h have 1: "dropWhile isspace s = s"
    by (cases s) auto
  from False l have "\<not> isspace (hd (rev s))"
    by (simp add: hd_rev)
  with False have 2: "dropWhile isspace (rev s) = rev s"
    by (cases "rev s") auto
  show ?thesis by (simp add: strip_def 1 2)
qed

lemma strip_idem: "strip (strip s) = strip s"
  by (rule strip_fixed) (use strip_hd strip_last in blast)

section \<open>Facts about the sanitizer and the customer number\<close>

lemma underscore_valid: "(0x5F::nat) \<notin> set invalid"
  by (simp add: invalid_def)

lemma sanitize_clean: "set (sanitize_for_path name) \<inter> set invalid = {}"
proof -
  have "set (sanitize_for_path name)
          \<subseteq> set (map (\<lambda>ch. if ch \<in> set invalid then 0x5F else ch) name)"
    unfolding sanitize_for_path_def by (rule set_strip)
  moreover have "set (map (\<lambda>ch. if ch \<in> set invalid then 0x5F else ch) name) \<inter> set invalid = {}"
    using underscore_valid by auto
  ultimately show ?thesis by blast
qed

lemma suffix_clean:
  "set suffix_before \<inter> set invalid = {}" "set suffix_after \<inter> set invalid = {}"
  by (simp_all add: suffix_before_def suffix_after_def invalid_def)

lemma allowed_exts_clean: "e \<in> set allowed_exts \<Longrightarrow> set e \<inter> set invalid = {}"
  by (auto simp: allowed_exts_def ustr_def invalid_def)

lemma hyphen_blank: "ch \<in> set (ustr ''- '') \<longleftrightarrow> ch = 0x2D \<or> ch = 0x20"
  by (auto simp: ustr_def)

lemma customer_number_Inr_iff:
  "customer_number raw = Inr n \<longleftrightarrow>
     digits_of raw \<noteq> [] \<and> (\<forall>ch\<in>set raw. isdigit ch \<or> ch = 0x2D \<or> ch = 0x20)
       \<and> n = digits_of raw"
  by (auto simp: customer_number_def Let_def list_ex_iff hyphen_blank)

lemma customer_number_Inl:
  "digits_of raw = [] \<or> (\<exists>ch\<in>set raw. \<not> (isdigit ch \<or> ch = 0x2D \<or> ch = 0x20)) \<Longrightarrow>
     \<exists>r. customer_number raw = Inl r"
  by (cases "customer_number raw") (auto simp: customer_number_Inr_iff)

lemma validate_customer:
  "validate_inputs pf f = Inr v \<Longrightarrow> customer_number (raw_customer_of f) = Inr (customer_no v)"
  by (auto simp: validate_inputs_def Let_def split: if_splits sum.splits)

lemma validate_rejects_customer:
  assumes "customer_number (raw_customer_of f) = Inl r"
  shows "\<exists>r'. validate_inputs pf f = Inl (Rejected r')"
  using assms by (simp add: validate_inputs_def Let_def)

lemma on_run_invalid:
  "validate_inputs pf f = Inl out \<Longrightarrow> on_run pf now f w = (out, f, w)"
  by (simp add: on_run_def)

section \<open>The running example, evaluated\<close>

lemma example_strips:
  "strip (ustr '' Kim'') = ustr ''Kim''"
  "strip (ustr ''Mango'') = ustr ''Mango''"
  "strip (ustr ''teddy cut'') = ustr ''teddy cut''"
  "strip (ustr ''short ears'' @ [10]) = ustr ''short ears''"
  "strip [10] = []"
  "strip (ustr ''010-1234-5678'') = ustr ''010-1234-5678''"
  by (simp_all add: unicode_defs)

lemma example_nonempty:
  "ustr ''Kim'' \<noteq> []" "ustr ''Mango'' \<noteq> []" "ustr ''010-1234-5678'' \<noteq> []"
  "ustr ''/in/before.JPG'' \<noteq> []" "ustr ''/in/after.png'' \<noteq> []"
  by (simp_all add: ustr_def)

lemma example_customer:
  "customer_number (ustr ''010-1234-5678'') = Inr (ustr ''01012345678'')"
  by (simp add: unicode_defs form_defs)

lemma example_raw_customer:
  "raw_customer_of (example_form\<lparr>customer_raw := c\<rparr>) = strip c"
  by (simp add: raw_customer_of_def example_form_def ustr_def)

lemma example_payment: "payment_of 4300 (ustr ''15,000'') = Inr 15000"
  by (simp add: unicode_defs form_defs)

lemma example_breed: "breed_of (ustr ''Poodle'') [] = Inr (ustr ''Poodle'')"
  by (simp add: unicode_defs form_defs)

lemma example_identity:
  "validate_inputs cpython311 (example_form\<lparr>customer_raw := c\<rparr>) =
     (if strip c = [] then Inl (Rejected MissingIdentity)
      else case customer_number (strip c) of
             Inl r \<Rightarrow> Inl (Rejected r)
           | Inr cno \<Rightarrow> Inr (example_record\<lparr>customer_no := cno\<rparr>))"
  unfolding validate_inputs_def example_raw_customer
  by (simp add: example_form_def example_record_def cpython311_def example_strips
      example_nonempty example_payment example_breed split: sum.split)

lemma example_form_customer: "example_form\<lparr>customer_raw := ustr ''010-1234-5678''\<rparr> = example_form"
  by (simp add: example_form_def)

lemma example_validate: "validate_inputs cpython311 example_form = Inr example_record"
  using example_identity [of "ustr ''010-1234-5678''"]
  by (simp add: example_form_customer example_strips example_nonempty example_customer
      example_record_def)

lemma example_sanitize: "sanitize_for_path (ustr '' a/b: c  '') = ustr ''a_b_ c''"
  by (simp add: unicode_defs)

lemma example_exts:
  "ext_of cpython311 (before_path example_form) = ustr ''.jpg''"
  "ext_of cpython311 (after_path example_form) = ustr ''.png''"
  by (simp_all add: cpython311_def example_form_def ascii_ext_def ascii_lower_def ustr_def)

lemma example_bad_customer:
  "strip (ustr ''ab-12'') = ustr ''ab-12''"
  "customer_number (ustr ''ab-12'') = Inl CustomerBadChar"
  "digits_of (ustr ''ab-12'') = ustr ''12''"
  "ustr ''ab-12'' \<noteq> []"
  by (simp_all add: unicode_defs form_defs)

section \<open>The claims\<close>

text \<open>
  C2. The sanitizer removes every occurrence of the nine characters and trims the
  whitespace around the name, so that no generated name contains one of them. It
  removes an occurrence by putting an underscore in its place (\<^verbatim>\<open>"a/b"\<close> becomes
  \<^verbatim>\<open>"a_b"\<close>): its result, with whitespace only before and after it, is the name with
  those replacements made; it neither starts nor ends with whitespace; it contains
  none of the nine characters. Consequently the folder name and the file-name prefix
  contain none, and neither do the two file names when the extensions are among the
  three that \<^verbatim>\<open>set_photo\<close> lets through.
\<close>

theorem C2_sanitize_replaces_and_trims:
  "(\<exists>pre post.
       map (\<lambda>ch. if ch \<in> set invalid then 0x5F else ch) name = pre @ sanitize_for_path name @ post
       \<and> (\<forall>c\<in>set pre. isspace c) \<and> (\<forall>c\<in>set post. isspace c))
   \<and> (sanitize_for_path name \<noteq> [] \<longrightarrow>
        \<not> isspace (hd (sanitize_for_path name)) \<and> \<not> isspace (last (sanitize_for_path name)))
   \<and> set (sanitize_for_path name) \<inter> set invalid = {}
   \<and> set (folder_name v) \<inter> set invalid = {}
   \<and> set (prefix_of now v) \<inter> set invalid = {}
   \<and> (ext_of pf (before_path f) \<in> set allowed_exts \<longrightarrow>
        set (name_before pf now f v) \<inter> set invalid = {})
   \<and> (ext_of pf (after_path f) \<in> set allowed_exts \<longrightarrow>
        set (name_after pf now f v) \<inter> set invalid = {})"
proof -
  have 1: "\<exists>pre post.
       map (\<lambda>ch. if ch \<in> set invalid then 0x5F else ch) name = pre @ sanitize_for_path name @ post
       \<and> (\<forall>c\<in>set pre. isspace c) \<and> (\<forall>c\<in>set post. isspace c)"
    unfolding sanitize_for_path_def by (rule strip_decomp)
  have 2: "sanitize_for_path name \<noteq> [] \<longrightarrow>
        \<not> isspace (hd (sanitize_for_path name)) \<and> \<not> isspace (last (sanitize_for_path name))"
    unfolding sanitize_for_path_def using strip_hd strip_last by blast
  have 3: "set (folder_name v) \<inter> set invalid = {}"
    unfolding folder_name_def by (rule sanitize_clean)
  have 4: "set (prefix_of now v) \<inter> set invalid = {}"
    unfolding prefix_of_def by (rule sanitize_clean)
  have 5: "set (name_before pf now f v) \<inter> set invalid = {}"
    if "ext_of pf (before_path f) \<in> set allowed_exts"
    using 4 suffix_clean(1) allowed_exts_clean [OF that]
    by (simp add: name_before_def Int_Un_distrib2)
  have 6: "set (name_after pf now f v) \<inter> set invalid = {}"
    if "ext_of pf (after_path f) \<in> set allowed_exts"
    using 4 suffix_clean(2) allowed_exts_clean [OF that]
    by (simp add: name_after_def Int_Un_distrib2)
  from 1 2 3 4 5 6 sanitize_clean [of name] show ?thesis
    by blast
qed

theorem C2_witness:
  "sanitize_for_path (ustr '' a/b: c  '') = ustr ''a_b_ c''
   \<and> \<not> isspace (hd (sanitize_for_path (ustr '' a/b: c  '')))
   \<and> \<not> isspace (last (sanitize_for_path (ustr '' a/b: c  '')))
   \<and> ext_of cpython311 (before_path example_form) \<in> set allowed_exts
   \<and> set (name_before cpython311 example_clock example_form example_record) \<inter> set invalid = {}
   \<and> ext_of cpython311 (after_path example_form) \<in> set allowed_exts
   \<and> set (name_after cpython311 example_clock example_form example_record) \<inter> set invalid = {}"
proof -
  have ne: "sanitize_for_path (ustr '' a/b: c  '') \<noteq> []"
    unfolding example_sanitize by (simp add: ustr_def)
  have b: "ext_of cpython311 (before_path example_form) \<in> set allowed_exts"
    by (simp add: example_exts allowed_exts_def)
  have a: "ext_of cpython311 (after_path example_form) \<in> set allowed_exts"
    by (simp add: example_exts allowed_exts_def)
  from ne b a example_sanitize
    C2_sanitize_replaces_and_trims
      [of "ustr '' a/b: c  ''" example_record example_clock cpython311 example_form]
  show ?thesis by blast
qed

text \<open>
  C1. The claim: for every customer identifier that contains letters mixed with digits
  and hyphens and passes validation, the customer number is the subsequence of its
  digits. No such identifier passes validation, so none has a customer number: the
  submission with the identifier \<^verbatim>\<open>"ab-12"\<close> is rejected for its letters, and the digits
  \<^verbatim>\<open>"12"\<close> are never used.
\<close>

theorem C1_counterexample:
  "validate_inputs cpython311 (example_form\<lparr>customer_raw := ustr ''ab-12''\<rparr>)
      = Inl (Rejected CustomerBadChar)
   \<and> digits_of (ustr ''ab-12'') = ustr ''12''"
  by (simp add: example_identity example_bad_customer)

text \<open>
  C1, as amended: for every submission that passes validation, the customer number is
  the subsequence of the digit characters of the trimmed identifier, in order, and it
  is not empty; and every character of that identifier is a digit, a hyphen or a
  space, so no identifier with a letter in it passes.
\<close>

theorem C1_customer_number_is_digit_subsequence:
  assumes "validate_inputs pf f = Inr v"
  shows "customer_no v = filter isdigit (raw_customer_of f)
         \<and> customer_no v \<noteq> []
         \<and> (\<forall>ch\<in>set (raw_customer_of f). isdigit ch \<or> ch = 0x2D \<or> ch = 0x20)"
  using validate_customer [OF assms]
  by (simp add: customer_number_Inr_iff digits_of_def)

theorem C1_witness:
  "validate_inputs cpython311 example_form = Inr example_record
   \<and> customer_no example_record = filter isdigit (raw_customer_of example_form)
   \<and> customer_no example_record = ustr ''01012345678''"
  using C1_customer_number_is_digit_subsequence [OF example_validate]
  by (simp add: example_validate example_record_def)

text \<open>
  C5. Validation requires a digit in the customer identifier and rejects the
  submission if any of its characters is not a digit, a hyphen or a space; the
  rejection leaves the form, the files and the log as they were; an accepted
  identifier gives the customer number made of its digit characters. The identifier
  is the one the checks look at: the text of the field, trimmed, and empty while the
  placeholder is shown.
\<close>

theorem C5_customer_identifier_validation:
  "((filter isdigit (raw_customer_of f) = []
       \<or> (\<exists>ch\<in>set (raw_customer_of f). \<not> (isdigit ch \<or> ch = 0x2D \<or> ch = 0x20)))
      \<longrightarrow> (\<exists>r. on_run pf now f w = (Rejected r, f, w)))
   \<and> (\<forall>v. validate_inputs pf f = Inr v \<longrightarrow>
          customer_no v = filter isdigit (raw_customer_of f)
          \<and> (\<exists>ch\<in>set (raw_customer_of f). isdigit ch))"
proof (intro conjI impI allI)
  assume "filter isdigit (raw_customer_of f) = []
       \<or> (\<exists>ch\<in>set (raw_customer_of f). \<not> (isdigit ch \<or> ch = 0x2D \<or> ch = 0x20))"
  then obtain r where "customer_number (raw_customer_of f) = Inl r"
    using customer_number_Inl [of "raw_customer_of f"] by (auto simp: digits_of_def)
  then obtain r' where "validate_inputs pf f = Inl (Rejected r')"
    using validate_rejects_customer by blast
  then show "\<exists>r. on_run pf now f w = (Rejected r, f, w)"
    by (auto dest: on_run_invalid)
next
  fix v
  assume v: "validate_inputs pf f = Inr v"
  from validate_customer [OF v]
  show "customer_no v = filter isdigit (raw_customer_of f)"
    by (simp add: customer_number_Inr_iff digits_of_def)
  from validate_customer [OF v]
  have "filter isdigit (raw_customer_of f) \<noteq> []"
    by (simp add: customer_number_Inr_iff digits_of_def)
  then show "\<exists>ch\<in>set (raw_customer_of f). isdigit ch"
    by (simp add: filter_empty_conv)
qed

theorem C5_witness:
  "(\<exists>ch\<in>set (raw_customer_of (example_form\<lparr>customer_raw := ustr ''ab-12''\<rparr>)).
       \<not> (isdigit ch \<or> ch = 0x2D \<or> ch = 0x20))
   \<and> on_run cpython311 example_clock (example_form\<lparr>customer_raw := ustr ''ab-12''\<rparr>) example_world
       = (Rejected CustomerBadChar, example_form\<lparr>customer_raw := ustr ''ab-12''\<rparr>, example_world)
   \<and> validate_inputs cpython311 example_form = Inr example_record
   \<and> customer_no example_record = filter isdigit (raw_customer_of example_form)"
proof -
  let ?f = "example_form\<lparr>customer_raw := ustr ''ab-12''\<rparr>"
  have bad: "\<exists>ch\<in>set (raw_customer_of ?f). \<not> (isdigit ch \<or> ch = 0x2D \<or> ch = 0x20)"
    using example_bad_customer(2)
    by (simp add: example_raw_customer example_bad_customer(1) customer_number_def Let_def
        list_ex_iff hyphen_blank split: if_splits)
  have rej: "validate_inputs cpython311 ?f = Inl (Rejected CustomerBadChar)"
    by (simp add: example_identity example_bad_customer)
  from bad C5_customer_identifier_validation [of ?f cpython311 example_clock example_world]
  have "\<exists>r. on_run cpython311 example_clock ?f example_world = (Rejected r, ?f, example_world)"
    by blast
  moreover have "on_run cpython311 example_clock ?f example_world
      = (Rejected CustomerBadChar, ?f, example_world)"
    using rej by (rule on_run_invalid)
  moreover from C5_customer_identifier_validation [of example_form cpython311 example_clock example_world]
    example_validate
  have "customer_no example_record = filter isdigit (raw_customer_of example_form)"
    by blast
  ultimately show ?thesis
    using bad example_validate by blast
qed

section \<open>Facts about the breed and the payment\<close>

lemma validate_breed:
  "validate_inputs pf f = Inr v \<Longrightarrow> breed_of (breed_var f) (breed_other_var f) = Inr (breed v)"
  by (auto simp: validate_inputs_def Let_def split: if_splits sum.splits)

lemma validate_payment:
  "validate_inputs pf f = Inr v \<Longrightarrow>
     payment_of (int_max_str_digits pf) (payment_display f) = Inr (payment_amount v)"
  by (auto simp: validate_inputs_def Let_def split: if_splits sum.splits)

lemma validate_rejects_breed:
  assumes "breed_of (breed_var f) (breed_other_var f) = Inl r"
  shows "\<exists>r'. validate_inputs pf f = Inl (Rejected r')"
  using assms by (simp add: validate_inputs_def Let_def split: sum.split)

lemma strip_sentinel: "strip breed_sentinel = breed_sentinel"
  by (simp add: breed_sentinel_def unicode_defs)

lemma load_breeds_trimmed:
  assumes "load_breeds_or_die file = Some bs" and "b \<in> set bs"
  shows "strip b = b"
proof -
  from assms have "b = breed_sentinel \<or> (\<exists>l. b = strip l)"
    by (auto simp: load_breeds_or_die_def Let_def split: option.splits if_splits)
  then show ?thesis
    using strip_sentinel strip_idem by auto
qed

lemma int_of_digits_nonneg: "int_of_digits lim ds = Inr n \<Longrightarrow> 0 \<le> n"
  by (auto simp: int_of_digits_def split: if_splits option.splits)

lemma payment_of_Inr:
  "payment_of lim display = Inr n \<longleftrightarrow>
     (strip display = [] \<and> n = 0)
     \<or> (strip display \<noteq> [] \<and> int_of_digits lim (filter isdigit (strip display)) = Inr n)"
  by (auto simp: payment_of_def Let_def digits_of_def int_of_digits_def split: sum.splits)

lemma payment_of_digits_only:
  "strip a \<noteq> [] \<Longrightarrow> strip b \<noteq> [] \<Longrightarrow>
   filter isdigit (strip a) = filter isdigit (strip b) \<Longrightarrow> payment_of lim a = payment_of lim b"
  by (simp add: payment_of_def Let_def digits_of_def)

lemma breed_of_Inl: "breed_of selected other = Inl r \<Longrightarrow> r = MissingBreedText"
  by (auto simp: breed_of_def Let_def split: if_splits)

lemma payment_of_Inl:
  "payment_of lim display = Inl out \<Longrightarrow>
     out = Rejected PaymentNotNumeric \<or> out = Unexpected ValueError"
  by (auto simp: payment_of_def Let_def int_of_digits_def split: if_splits sum.splits option.splits)

lemma strip_placeholder:
  "strip placeholder = placeholder" "placeholder \<noteq> []"
  "customer_number placeholder = Inr (ustr ''01000000000'')"
  "ustr ''black'' \<noteq> ustr ''gray''"
  by (simp_all add: placeholder_def unicode_defs form_defs)

lemma example_variants:
  "validate_inputs cpython311
     (example_form\<lparr>breed_var := b, breed_other_var := ot, payment_display := p\<rparr>) =
     (case breed_of b ot of
        Inl r \<Rightarrow> Inl (Rejected r)
      | Inr br \<Rightarrow>
          (case payment_of 4300 p of
             Inl out \<Rightarrow> Inl out
           | Inr amount \<Rightarrow> Inr (example_record\<lparr>breed := br, payment_amount := amount\<rparr>)))"
proof -
  have rc: "raw_customer_of (example_form\<lparr>breed_var := b, breed_other_var := ot, payment_display := p\<rparr>)
      = ustr ''010-1234-5678''"
    by (simp add: raw_customer_of_def example_form_def example_strips)
       (simp add: ustr_def)
  show ?thesis
    unfolding validate_inputs_def rc
    by (simp add: example_form_def example_record_def cpython311_def example_strips
        example_nonempty example_customer split: sum.split)
qed

lemma example_form_same:
  "example_form\<lparr>breed_var := ustr ''Poodle'', breed_other_var := [], payment_display := p\<rparr>
     = example_form\<lparr>payment_display := p\<rparr>"
  "example_form\<lparr>breed_var := b, breed_other_var := ot, payment_display := ustr ''15,000''\<rparr>
     = example_form\<lparr>breed_var := b, breed_other_var := ot\<rparr>"
  by (simp_all add: example_form_def)

lemma example_payments:
  "payment_of 4300 (ustr ''-500'') = Inr 500"
  "payment_of 4300 (ustr ''500'') = Inr 500"
  "payment_of 4300 [0xB2] = Inl (Unexpected ValueError)"
  "payment_of 4300 (ustr ''abc'') = Inl (Rejected PaymentNotNumeric)"
  "payment_of 4300 (ustr ''  '') = Inr 0"
  by (simp_all add: unicode_defs form_defs)

lemma example_breeds:
  "breed_of breed_sentinel (ustr ''  '') = Inl MissingBreedText"
  "breed_of breed_sentinel (ustr '' Jindo mix '') = Inr (ustr ''Jindo mix'')"
  "strip (ustr ''  '') = []"
  "strip (ustr '' Jindo mix '') = ustr ''Jindo mix''"
  "ustr ''Jindo mix'' \<noteq> []"
  "ustr ''Poodle'' \<noteq> breed_sentinel"
  "strip (ustr ''Poodle'') = ustr ''Poodle''"
  by (simp_all add: unicode_defs form_defs)

lemma example_breed_file:
  "load_breeds_or_die (Some [ustr ''Poodle '', ustr '' '', ustr ''Maltese'']) =
     Some [ustr ''Poodle'', ustr ''Maltese'', breed_sentinel]"
  by (simp add: load_breeds_or_die_def breed_sentinel_def unicode_defs)


text \<open>
  C6. With the sentinel breed selected, the submission is rejected when the free text
  is empty after trimming, and otherwise the breed is the trimmed free text; with any
  other selection the breed is the selected value, which for an entry of the breed
  list is that entry unchanged (the list is trimmed when it is loaded).
\<close>

theorem C6_breed_selection:
  "(strip (breed_var f) = breed_sentinel \<and> strip (breed_other_var f) = [] \<longrightarrow>
      breed_of (breed_var f) (breed_other_var f) = Inl MissingBreedText
      \<and> (\<exists>r. on_run pf now f w = (Rejected r, f, w)))
   \<and> (strip (breed_var f) = breed_sentinel \<and> strip (breed_other_var f) \<noteq> [] \<longrightarrow>
      breed_of (breed_var f) (breed_other_var f) = Inr (strip (breed_other_var f)))
   \<and> (\<forall>v. validate_inputs pf f = Inr v \<longrightarrow>
      breed v = (if strip (breed_var f) = breed_sentinel then strip (breed_other_var f)
                 else strip (breed_var f)))
   \<and> (\<forall>bs v. load_breeds_or_die lines = Some bs \<and> breed_var f \<in> set bs
          \<and> breed_var f \<noteq> breed_sentinel \<and> validate_inputs pf f = Inr v \<longrightarrow>
      breed v = breed_var f)"
proof (intro conjI impI allI)
  assume a: "strip (breed_var f) = breed_sentinel \<and> strip (breed_other_var f) = []"
  then show b: "breed_of (breed_var f) (breed_other_var f) = Inl MissingBreedText"
    by (simp add: breed_of_def)
  from validate_rejects_breed [OF b] obtain r where "validate_inputs pf f = Inl (Rejected r)"
    by blast
  then show "\<exists>r. on_run pf now f w = (Rejected r, f, w)"
    by (auto dest: on_run_invalid)
next
  assume "strip (breed_var f) = breed_sentinel \<and> strip (breed_other_var f) \<noteq> []"
  then show "breed_of (breed_var f) (breed_other_var f) = Inr (strip (breed_other_var f))"
    by (simp add: breed_of_def)
next
  fix v
  assume "validate_inputs pf f = Inr v"
  from validate_breed [OF this]
  show "breed v = (if strip (breed_var f) = breed_sentinel then strip (breed_other_var f)
                   else strip (breed_var f))"
    by (auto simp: breed_of_def Let_def split: if_splits)
next
  fix bs v
  assume a: "load_breeds_or_die lines = Some bs \<and> breed_var f \<in> set bs
          \<and> breed_var f \<noteq> breed_sentinel \<and> validate_inputs pf f = Inr v"
  then have s: "strip (breed_var f) = breed_var f"
    using load_breeds_trimmed by blast
  from a have "breed_of (breed_var f) (breed_other_var f) = Inr (breed v)"
    using validate_breed by blast
  with a s show "breed v = breed_var f"
    by (simp add: breed_of_def)
qed

theorem C6_witness:
  "on_run cpython311 example_clock
      (example_form\<lparr>breed_var := breed_sentinel, breed_other_var := ustr ''  ''\<rparr>) example_world
     = (Rejected MissingBreedText,
        example_form\<lparr>breed_var := breed_sentinel, breed_other_var := ustr ''  ''\<rparr>, example_world)
   \<and> validate_inputs cpython311
        (example_form\<lparr>breed_var := breed_sentinel, breed_other_var := ustr '' Jindo mix ''\<rparr>)
       = Inr (example_record\<lparr>breed := ustr ''Jindo mix''\<rparr>)
   \<and> breed (example_record\<lparr>breed := ustr ''Jindo mix''\<rparr>) = strip (ustr '' Jindo mix '')
   \<and> load_breeds_or_die (Some [ustr ''Poodle '', ustr '' '', ustr ''Maltese''])
       = Some [ustr ''Poodle'', ustr ''Maltese'', breed_sentinel]
   \<and> validate_inputs cpython311 example_form = Inr example_record
   \<and> breed example_record = breed_var example_form"
proof -
  let ?f1 = "example_form\<lparr>breed_var := breed_sentinel, breed_other_var := ustr ''  ''\<rparr>"
  let ?f2 = "example_form\<lparr>breed_var := breed_sentinel, breed_other_var := ustr '' Jindo mix ''\<rparr>"
  let ?v2 = "example_record\<lparr>breed := ustr ''Jindo mix''\<rparr>"
  have v1: "validate_inputs cpython311 ?f1 = Inl (Rejected MissingBreedText)"
    using example_variants [where b = breed_sentinel and ot = "ustr ''  ''" and p = "ustr ''15,000''"]
    by (simp add: example_form_same example_breeds)
  have "strip (breed_var ?f1) = breed_sentinel \<and> strip (breed_other_var ?f1) = []"
    by (simp add: strip_sentinel example_breeds)
  with C6_breed_selection [where f = ?f1 and pf = cpython311 and now = example_clock and w = example_world]
  have "\<exists>r. on_run cpython311 example_clock ?f1 example_world = (Rejected r, ?f1, example_world)"
    by blast
  moreover have r1: "on_run cpython311 example_clock ?f1 example_world
      = (Rejected MissingBreedText, ?f1, example_world)"
    using v1 by (rule on_run_invalid)
  moreover have v2: "validate_inputs cpython311 ?f2 = Inr ?v2"
    using example_variants [where b = breed_sentinel and ot = "ustr '' Jindo mix ''" and p = "ustr ''15,000''"]
    by (simp add: example_form_same example_breeds example_payment example_record_def)
  moreover have "breed ?v2 = strip (ustr '' Jindo mix '')"
    using C6_breed_selection [where f = ?f2 and pf = cpython311 and now = example_clock and w = example_world] v2
    by (simp add: strip_sentinel)
  moreover have "breed example_record = breed_var example_form"
  proof -
    have "breed_var example_form \<in> set [ustr ''Poodle'', ustr ''Maltese'', breed_sentinel]"
      by (simp add: example_form_def)
    moreover have "breed_var example_form \<noteq> breed_sentinel"
      by (simp add: example_form_def example_breeds)
    ultimately show ?thesis
      using C6_breed_selection
        [where f = example_form and pf = cpython311 and now = example_clock
          and w = example_world
          and lines = "Some [ustr ''Poodle '', ustr '' '', ustr ''Maltese'']"]
        example_breed_file example_validate
      by blast
  qed
  ultimately show ?thesis
    using example_breed_file example_validate by blast
qed

text \<open>
  C7. The claim: a payment field that is not empty must reduce to a string of digit
  characters that is not empty, or the submission is rejected with a reason about the
  payment; a valid one is parsed as a non-negative integer; an empty field is zero.
  The code keeps the characters that \<^verbatim>\<open>isdigit\<close> accepts and hands them to \<^verbatim>\<open>int\<close>, which
  reads decimal digits only. For a field holding the one character U+00B2 (superscript two) the digit
  string is the field itself, \<^verbatim>\<open>int\<close> raises \<^verbatim>\<open>ValueError\<close>, and the submission ends in the
  handler for unexpected errors: no amount is parsed and the reason is not about the
  payment. The handler of the same field for the loss of focus catches that very
  exception and reports it as a payment that cannot be interpreted.
\<close>

theorem C7_superscript_payment_raises:
  "filter isdigit (strip [0xB2]) = [0xB2]
   \<and> on_run cpython311 example_clock (example_form\<lparr>payment_display := [0xB2]\<rparr>) example_world
       = (Unexpected ValueError, example_form\<lparr>payment_display := [0xB2]\<rparr>, example_world)
   \<and> on_payment_focus_out 4300 [0xB2] = ([], Some NotInterpretable)"
proof -
  have "filter isdigit (strip [0xB2]) = [0xB2]"
    by (simp add: unicode_defs)
  moreover have "validate_inputs cpython311 (example_form\<lparr>payment_display := [0xB2]\<rparr>)
      = Inl (Unexpected ValueError)"
    using example_variants [where b = "ustr ''Poodle''" and ot = "[]" and p = "[0xB2]"]
    by (simp add: example_form_same example_breed example_payments)
  then have "on_run cpython311 example_clock (example_form\<lparr>payment_display := [0xB2]\<rparr>) example_world
       = (Unexpected ValueError, example_form\<lparr>payment_display := [0xB2]\<rparr>, example_world)"
    by (rule on_run_invalid)
  moreover have "on_payment_focus_out 4300 [0xB2] = ([], Some NotInterpretable)"
    by (simp add: on_payment_focus_out_def unicode_defs)
  ultimately show ?thesis by blast
qed

text \<open>
  C9. An accepted payment is never negative: the amount is zero for a field that is
  empty after trimming, and otherwise the integer read from the digit characters of
  the field alone, whatever stands between them; two fields with the same digit
  characters give the same result. The field \<^verbatim>\<open>"-500"\<close> is recorded as 500.
\<close>

theorem C9_payment_amount_nonnegative:
  "(\<forall>n. payment_of lim display = Inr n \<longrightarrow>
       0 \<le> n
       \<and> (if strip display = [] then n = 0
          else int_of_digits lim (filter isdigit (strip display)) = Inr n))
   \<and> (strip a \<noteq> [] \<and> strip b \<noteq> [] \<and> filter isdigit (strip a) = filter isdigit (strip b) \<longrightarrow>
       payment_of lim a = payment_of lim b)
   \<and> (\<forall>v. validate_inputs pf f = Inr v \<longrightarrow>
       0 \<le> payment_amount v
       \<and> payment_of (int_max_str_digits pf) (payment_display f) = Inr (payment_amount v))"
proof -
  have nonneg: "0 \<le> n" if "payment_of l d = Inr n" for l d n
    using that int_of_digits_nonneg by (auto simp: payment_of_Inr)
  have 1: "\<forall>n. payment_of lim display = Inr n \<longrightarrow>
       0 \<le> n
       \<and> (if strip display = [] then n = 0
          else int_of_digits lim (filter isdigit (strip display)) = Inr n)"
    using nonneg by (auto simp: payment_of_Inr)
  have 2: "strip a \<noteq> [] \<and> strip b \<noteq> [] \<and> filter isdigit (strip a) = filter isdigit (strip b) \<longrightarrow>
       payment_of lim a = payment_of lim b"
    using payment_of_digits_only by blast
  have 3: "\<forall>v. validate_inputs pf f = Inr v \<longrightarrow>
       0 \<le> payment_amount v
       \<and> payment_of (int_max_str_digits pf) (payment_display f) = Inr (payment_amount v)"
    using nonneg validate_payment by blast
  from 1 2 3 show ?thesis by blast
qed

theorem C9_witness:
  "payment_of 4300 (ustr ''-500'') = Inr 500
   \<and> int_of_digits 4300 (filter isdigit (strip (ustr ''-500''))) = Inr 500
   \<and> payment_of 4300 (ustr ''-500'') = payment_of 4300 (ustr ''500'')
   \<and> validate_inputs cpython311 (example_form\<lparr>payment_display := ustr ''-500''\<rparr>)
       = Inr (example_record\<lparr>payment_amount := 500\<rparr>)
   \<and> 0 \<le> payment_amount (example_record\<lparr>payment_amount := 500\<rparr>)"
proof -
  let ?f = "example_form\<lparr>payment_display := ustr ''-500''\<rparr>"
  have s: "strip (ustr ''-500'') \<noteq> []" "strip (ustr ''500'') \<noteq> []"
    "filter isdigit (strip (ustr ''-500'')) = filter isdigit (strip (ustr ''500''))"
    by (simp_all add: unicode_defs)
  have v: "validate_inputs cpython311 ?f = Inr (example_record\<lparr>payment_amount := 500\<rparr>)"
    using example_variants [where b = "ustr ''Poodle''" and ot = "[]" and p = "ustr ''-500''"]
    by (simp add: example_form_same example_breed example_payments example_record_def)
  from C9_payment_amount_nonnegative
      [where lim = 4300 and display = "ustr ''-500''" and a = "ustr ''-500''"
        and b = "ustr ''500''" and pf = cpython311 and f = ?f]
    example_payments(1) s v
  show ?thesis by auto
qed

text \<open>
  C10. The placeholder counts as an empty identifier only when the field holds exactly
  its text and is shown in gray. When the text \<^verbatim>\<open>"010-0000-0000"\<close> stands in the field
  in another colour, as it does after the operator has typed it, the identifier is
  accepted and the customer number is \<^verbatim>\<open>"01000000000"\<close>.
\<close>

theorem C10_typed_placeholder_is_accepted:
  "(raw_customer_of f = [] \<longleftrightarrow>
      strip (customer_raw f) = []
      \<or> strip (customer_raw f) = placeholder \<and> customer_fg f = ustr ''gray'')
   \<and> (strip (customer_raw f) = placeholder \<and> customer_fg f \<noteq> ustr ''gray'' \<longrightarrow>
        raw_customer_of f = placeholder
        \<and> customer_number (raw_customer_of f) = Inr (ustr ''01000000000'')
        \<and> (before_path f \<noteq> [] \<and> after_path f \<noteq> [] \<and> strip (dog_name f) \<noteq> []
             \<and> strip (owner_name f) \<noteq> [] \<longrightarrow>
            validate_inputs pf f \<noteq> Inl (Rejected MissingIdentity))
        \<and> (\<forall>v. validate_inputs pf f = Inr v \<longrightarrow> customer_no v = ustr ''01000000000''))
   \<and> (customer_raw f = placeholder \<and> customer_fg f = ustr ''gray'' \<longrightarrow>
        customer_raw (on_customer_focus_out (type_customer placeholder (on_customer_focus_in f)))
          = placeholder
        \<and> customer_fg (on_customer_focus_out (type_customer placeholder (on_customer_focus_in f)))
          = ustr ''black'')"
proof (intro conjI impI)
  show "raw_customer_of f = [] \<longleftrightarrow>
      strip (customer_raw f) = []
      \<or> strip (customer_raw f) = placeholder \<and> customer_fg f = ustr ''gray''"
    by (auto simp: raw_customer_of_def Let_def)
next
  assume a: "strip (customer_raw f) = placeholder \<and> customer_fg f \<noteq> ustr ''gray''"
  then show rc: "raw_customer_of f = placeholder"
    by (simp add: raw_customer_of_def)
  then show "customer_number (raw_customer_of f) = Inr (ustr ''01000000000'')"
    by (simp add: strip_placeholder)
  show "\<forall>v. validate_inputs pf f = Inr v \<longrightarrow> customer_no v = ustr ''01000000000''"
    using validate_customer [of pf f] rc by (auto simp: strip_placeholder)
  assume "before_path f \<noteq> [] \<and> after_path f \<noteq> [] \<and> strip (dog_name f) \<noteq> []
             \<and> strip (owner_name f) \<noteq> []"
  then show "validate_inputs pf f \<noteq> Inl (Rejected MissingIdentity)"
    using rc by (auto simp: validate_inputs_def strip_placeholder split: sum.split
        dest: breed_of_Inl payment_of_Inl)
next
  assume a: "customer_raw f = placeholder \<and> customer_fg f = ustr ''gray''"
  then show "customer_raw (on_customer_focus_out (type_customer placeholder (on_customer_focus_in f)))
          = placeholder"
    by (simp add: on_customer_focus_in_def on_customer_focus_out_def type_customer_def
        strip_placeholder)
  from a show "customer_fg (on_customer_focus_out (type_customer placeholder (on_customer_focus_in f)))
          = ustr ''black''"
    by (simp add: on_customer_focus_in_def on_customer_focus_out_def type_customer_def
        strip_placeholder)
qed

theorem C10_witness:
  "strip (customer_raw (example_form\<lparr>customer_raw := placeholder\<rparr>)) = placeholder
   \<and> customer_fg (example_form\<lparr>customer_raw := placeholder\<rparr>) \<noteq> ustr ''gray''
   \<and> validate_inputs cpython311 (example_form\<lparr>customer_raw := placeholder\<rparr>)
       = Inr (example_record\<lparr>customer_no := ustr ''01000000000''\<rparr>)
   \<and> customer_no (example_record\<lparr>customer_no := ustr ''01000000000''\<rparr>) = ustr ''01000000000''
   \<and> customer_fg (on_customer_focus_out (type_customer placeholder
         (on_customer_focus_in (reset_inputs example_form)))) = ustr ''black''"
proof -
  let ?f = "example_form\<lparr>customer_raw := placeholder\<rparr>"
  have 1: "strip (customer_raw ?f) = placeholder \<and> customer_fg ?f \<noteq> ustr ''gray''"
    by (simp add: strip_placeholder) (simp add: example_form_def strip_placeholder)
  have v: "validate_inputs cpython311 ?f = Inr (example_record\<lparr>customer_no := ustr ''01000000000''\<rparr>)"
    by (simp add: example_identity strip_placeholder)
  have r: "customer_raw (reset_inputs example_form) = placeholder
      \<and> customer_fg (reset_inputs example_form) = ustr ''gray''"
    by (simp add: reset_inputs_def)
  from C10_typed_placeholder_is_accepted [where f = ?f and pf = cpython311] 1 v
  have "customer_no (example_record\<lparr>customer_no := ustr ''01000000000''\<rparr>) = ustr ''01000000000''"
    by blast
  moreover from C10_typed_placeholder_is_accepted [where f = "reset_inputs example_form" and pf = cpython311] r
  have "customer_fg (on_customer_focus_out (type_customer placeholder
         (on_customer_focus_in (reset_inputs example_form)))) = ustr ''black''"
    by blast
  ultimately show ?thesis using 1 v by blast
qed

section \<open>Facts about the submission as a whole\<close>

lemma makedirs_frame:
  assumes "makedirs d w = (e, w1)"
  shows "log w1 = log w" "photos w1 = photos w" "saved w1 = saved w"
    "folders w \<subseteq> folders w1" "root_dir w \<Longrightarrow> root_dir w1"
    "can_save_image w1 = can_save_image w" "can_save_log w1 = can_save_log w"
  using assms by (auto simp: makedirs_def Let_def split: if_splits)

lemma makedirs_result:
  assumes "makedirs d w = (e, w1)"
  shows "(e = None \<and> w1 = w\<lparr>root_dir := True, folders := insert d (folders w)\<rparr>)
         \<or> (e = Some OSError \<and> (w1 = w \<or> w1 = w\<lparr>root_dir := True\<rparr>)
             \<and> folders w1 = folders w)"
  using assms by (auto simp: makedirs_def Let_def insert_absorb split: if_splits)

lemma save_image_copy_Inr:
  assumes "save_image_copy pf src dest w = Inr w'"
  shows "\<exists>fmt im. photos w src = Some im \<and> w' = w\<lparr>saved := (saved w)(dest \<mapsto> (fmt, im))\<rparr>"
  using assms
  by (auto simp: save_image_copy_def Let_def split: option.splits if_splits)

lemma save_image_copy_frame:
  assumes "save_image_copy pf src dest w = Inr w'"
  shows "log w' = log w" "photos w' = photos w" "folders w' = folders w"
    "root_dir w' = root_dir w" "saved w dd \<noteq> None \<Longrightarrow> saved w' dd \<noteq> None"
    "can_save_log w' = can_save_log w"
  using save_image_copy_Inr [OF assms] by auto

lemma ensure_excel_file_result:
  assumes "ensure_excel_file w = (e, w1)"
  shows "(e = None \<and> log w \<noteq> Absent \<and> w1 = w)
         \<or> (e = None \<and> log w = Absent
             \<and> w1 = w\<lparr>log := Sheet \<lparr>title = sheet_title, rows = [header_row]\<rparr>\<rparr>)
         \<or> (e = Some OSError \<and> log w = Absent \<and> w1 = w)"
  using assms by (auto simp: ensure_excel_file_def split: log_store.splits if_splits)

lemma append_excel_row_frame:
  assumes "append_excel_row row w = (e, w4)"
  shows "photos w4 = photos w" "folders w4 = folders w" "root_dir w4 = root_dir w"
    "saved w4 = saved w"
proof -
  obtain e1 w1 where en: "ensure_excel_file w = (e1, w1)"
    by (cases "ensure_excel_file w")
  from ensure_excel_file_result [OF en] assms en
  show "photos w4 = photos w" "folders w4 = folders w" "root_dir w4 = root_dir w"
    "saved w4 = saved w"
    by (auto simp: append_excel_row_def split: log_store.splits if_splits)
qed

lemma append_excel_row_ok:
  assumes "append_excel_row row w = (None, w4)"
  shows "(case log w of
            Absent \<Rightarrow> log w4 = Sheet \<lparr>title = sheet_title, rows = [header_row, row]\<rparr>
          | Sheet wb \<Rightarrow> log w4 = Sheet (wb\<lparr>rows := rows wb @ [row]\<rparr>)
          | Corrupt \<Rightarrow> False)"
proof -
  obtain e1 w1 where en: "ensure_excel_file w = (e1, w1)"
    by (cases "ensure_excel_file w")
  from ensure_excel_file_result [OF en] assms en
  show ?thesis
    by (auto simp: append_excel_row_def split: log_store.splits if_splits)
qed

lemma append_excel_row_failed:
  assumes "append_excel_row row w = (Some e, w4)"
  shows "log w4 = log w
         \<or> (log w = Absent \<and> log w4 = Sheet \<lparr>title = sheet_title, rows = [header_row]\<rparr>)"
proof -
  obtain e1 w1 where en: "ensure_excel_file w = (e1, w1)"
    by (cases "ensure_excel_file w")
  from ensure_excel_file_result [OF en] assms en
  show ?thesis
    by (auto simp: append_excel_row_def split: log_store.splits if_splits)
qed

text \<open>The ways a submission that has passed validation can end.\<close>

lemma on_run_valid_cases:
  assumes "validate_inputs pf f = Inr v" and "on_run pf now f w = (out, f', w')"
  obtains
    (no_folder) e where "makedirs (folder_name v) w = (Some e, w')"
      "out = Unexpected e" "f' = f"
  | (too_long) "makedirs (folder_name v) w = (None, w')"
      "100 < length (name_before pf now f v) \<or> 100 < length (name_after pf now f v)"
      "out = Rejected FilenameTooLong" "f' = f"
  | (no_before) e where "makedirs (folder_name v) w = (None, w')"
      "\<not> (100 < length (name_before pf now f v) \<or> 100 < length (name_after pf now f v))"
      "save_image_copy pf (before_path f) (folder_name v, name_before pf now f v) w' = Inl e"
      "out = Unexpected e" "f' = f"
  | (no_after) e w1 where "makedirs (folder_name v) w = (None, w1)"
      "\<not> (100 < length (name_before pf now f v) \<or> 100 < length (name_after pf now f v))"
      "save_image_copy pf (before_path f) (folder_name v, name_before pf now f v) w1 = Inr w'"
      "save_image_copy pf (after_path f) (folder_name v, name_after pf now f v) w' = Inl e"
      "out = Unexpected e" "f' = f"
  | (no_row) e w1 w2 w3 where "makedirs (folder_name v) w = (None, w1)"
      "\<not> (100 < length (name_before pf now f v) \<or> 100 < length (name_after pf now f v))"
      "save_image_copy pf (before_path f) (folder_name v, name_before pf now f v) w1 = Inr w2"
      "save_image_copy pf (after_path f) (folder_name v, name_after pf now f v) w2 = Inr w3"
      "append_excel_row (row_of pf now f v) w3 = (Some e, w')"
      "out = Unexpected e" "f' = f"
  | (saved) w1 w2 w3 where "makedirs (folder_name v) w = (None, w1)"
      "\<not> (100 < length (name_before pf now f v) \<or> 100 < length (name_after pf now f v))"
      "save_image_copy pf (before_path f) (folder_name v, name_before pf now f v) w1 = Inr w2"
      "save_image_copy pf (after_path f) (folder_name v, name_after pf now f v) w2 = Inr w3"
      "append_excel_row (row_of pf now f v) w3 = (None, w')"
      "out = Saved" "f' = reset_inputs f"
proof -
  let ?nb = "name_before pf now f v" and ?na = "name_after pf now f v"
  let ?d = "folder_name v"
  obtain e1 w1 where mk: "makedirs ?d w = (e1, w1)"
    by (cases "makedirs ?d w")
  show thesis
  proof (cases e1)
    case (Some e)
    with assms mk have "out = Unexpected e" "f' = f" "w' = w1"
      by (simp_all add: on_run_def)
    with mk Some no_folder show thesis by simp
  next
    case None
    note mk = mk [unfolded None]
    show thesis
    proof (cases "100 < length ?nb \<or> 100 < length ?na")
      case True
      with assms mk have "out = Rejected FilenameTooLong" "f' = f" "w' = w1"
        by (simp_all add: on_run_def Let_def)
      with mk True too_long show thesis by simp
    next
      case False
      show thesis
      proof (cases "save_image_copy pf (before_path f) (?d, ?nb) w1")
        case (Inl e)
        with assms mk False have "out = Unexpected e" "f' = f" "w' = w1"
          by (simp_all add: on_run_def Let_def)
        with mk False Inl no_before show thesis by simp
      next
        case b: (Inr w2)
        show thesis
        proof (cases "save_image_copy pf (after_path f) (?d, ?na) w2")
          case (Inl e)
          with assms mk False b have "out = Unexpected e" "f' = f" "w' = w2"
            by (simp_all add: on_run_def Let_def)
          with mk False b Inl no_after show thesis by simp
        next
          case a: (Inr w3)
          obtain e4 w4 where ap: "append_excel_row (row_of pf now f v) w3 = (e4, w4)"
            by (cases "append_excel_row (row_of pf now f v) w3")
          show thesis
          proof (cases e4)
            case (Some e)
            with assms mk False b a ap have "out = Unexpected e" "f' = f" "w' = w4"
              by (simp_all add: on_run_def Let_def)
            with mk False b a ap Some no_row show thesis by simp
          next
            case None
            with assms mk False b a ap have "out = Saved" "f' = reset_inputs f" "w' = w4"
              by (simp_all add: on_run_def Let_def)
            with mk False b a ap None saved show thesis by simp
          qed
        qed
      qed
    qed
  qed
qed

lemma validate_never_saved: "validate_inputs pf f \<noteq> Inl Saved"
  by (auto simp: validate_inputs_def Let_def split: if_splits sum.splits dest: payment_of_Inl)

lemma on_run_too_long:
  assumes "validate_inputs pf f = Inr v"
    and "100 < length (name_before pf now f v) \<or> 100 < length (name_after pf now f v)"
  shows "on_run pf now f w =
           (case makedirs (folder_name v) w of
              (Some e, w1) \<Rightarrow> (Unexpected e, f, w1)
            | (None, w1) \<Rightarrow> (Rejected FilenameTooLong, f, w1))"
  using assms by (auto simp: on_run_def Let_def split: prod.splits option.splits)

lemma on_run_saved:
  assumes "on_run pf now f w = (Saved, f', w')"
  shows "\<exists>v. validate_inputs pf f = Inr v \<and> f' = reset_inputs f
           \<and> (case log w of
                 Absent \<Rightarrow>
                   log w' = Sheet \<lparr>title = sheet_title, rows = [header_row, row_of pf now f v]\<rparr>
               | Sheet wb \<Rightarrow> log w' = Sheet (wb\<lparr>rows := rows wb @ [row_of pf now f v]\<rparr>)
               | Corrupt \<Rightarrow> False)"
proof (cases "validate_inputs pf f")
  case (Inl o1)
  with assms have "o1 = Saved" by (simp add: on_run_def)
  with Inl validate_never_saved show ?thesis by blast
next
  case (Inr v)
  from Inr assms show ?thesis
  proof (cases rule: on_run_valid_cases)
    case (saved w1 w2 w3)
    have "log w3 = log w"
      using makedirs_frame(1) [OF saved(1)] save_image_copy_frame(1) [OF saved(3)]
        save_image_copy_frame(1) [OF saved(4)] by simp
    with append_excel_row_ok [OF saved(5)] Inr saved(7) show ?thesis
      by auto
  qed simp_all
qed

lemma on_run_not_saved:
  assumes "on_run pf now f w = (out, f', w')" and "out \<noteq> Saved"
  shows "f' = f
    \<and> (log w' = log w
         \<or> (log w = Absent \<and> log w' = Sheet \<lparr>title = sheet_title, rows = [header_row]\<rparr>))
    \<and> folders w \<subseteq> folders w'
    \<and> (root_dir w \<longrightarrow> root_dir w')
    \<and> (\<forall>d. saved w d \<noteq> None \<longrightarrow> saved w' d \<noteq> None)"
proof (cases "validate_inputs pf f")
  case (Inl o1)
  with assms(1) show ?thesis
    by (simp add: on_run_def)
next
  case (Inr v)
  from Inr assms(1) show ?thesis
  proof (cases rule: on_run_valid_cases)
    case (no_folder e)
    with makedirs_frame [OF no_folder(1)] show ?thesis by simp
  next
    case too_long
    with makedirs_frame [OF too_long(1)] show ?thesis by simp
  next
    case (no_before e)
    with makedirs_frame [OF no_before(1)] show ?thesis by simp
  next
    case (no_after e w1)
    with makedirs_frame [OF no_after(1)] save_image_copy_frame [OF no_after(3)]
    show ?thesis by auto
  next
    case (no_row e w1 w2 w3)
    have "log w3 = log w" "folders w \<subseteq> folders w3" "root_dir w \<longrightarrow> root_dir w3"
      "\<forall>d. saved w d \<noteq> None \<longrightarrow> saved w3 d \<noteq> None"
      using makedirs_frame [OF no_row(1)] save_image_copy_frame [OF no_row(3)]
        save_image_copy_frame [OF no_row(4)] by auto
    with append_excel_row_frame [OF no_row(5)] append_excel_row_failed [OF no_row(5)] no_row(7)
    show ?thesis by auto
  next
    case (saved w1 w2 w3)
    with assms(2) show ?thesis by simp
  qed
qed

lemma on_run_keeps_rows:
  assumes "on_run pf now f w = (out, f', w')" and "log w = Sheet wb"
  shows "\<exists>wb'. log w' = Sheet wb' \<and> take (length (rows wb)) (rows wb') = rows wb"
proof (cases "out = Saved")
  case True
  with assms(1) on_run_saved [of pf now f w f' w'] assms(2) show ?thesis
    by auto
next
  case False
  from on_run_not_saved [OF assms(1) False] assms(2) show ?thesis
    by auto
qed


text \<open>The same, read forwards: a run assembled from the results of its steps.\<close>

lemma on_run_through:
  assumes "validate_inputs pf f = Inr v"
    and "makedirs (folder_name v) w = (None, w1)"
    and "\<not> (100 < length (name_before pf now f v) \<or> 100 < length (name_after pf now f v))"
    and "save_image_copy pf (before_path f) (folder_name v, name_before pf now f v) w1 = Inr w2"
    and "save_image_copy pf (after_path f) (folder_name v, name_after pf now f v) w2 = Inr w3"
    and "append_excel_row (row_of pf now f v) w3 = (e, w4)"
  shows "on_run pf now f w =
           (case e of None \<Rightarrow> (Saved, reset_inputs f, w4) | Some x \<Rightarrow> (Unexpected x, f, w4))"
  using assms by (simp add: on_run_def Let_def split: option.split)



section \<open>The example submission, run\<close>

lemma example_names:
  "folder_name example_record = example_folder"
  "name_before cpython311 example_clock example_form example_record = example_name_before"
  "name_after cpython311 example_clock example_form example_record = example_name_after"
  by (simp_all add: example_folder_def example_name_before_def example_name_after_def
      example_record_def example_clock_def example_form_def unicode_defs suffix_before_def
      suffix_after_def folder_name_def prefix_of_def name_before_def name_after_def
      ascii_lower_def ascii_ext_def cpython311_def Let_def)

lemma example_lengths:
  "length example_name_before = 50" "length example_name_after = 50"
  "utf8_length example_folder \<le> 255"
  "utf8_length example_name_before \<le> 255" "utf8_length example_name_after \<le> 255"
  by (simp_all add: example_name_before_def example_name_after_def example_folder_def
      suffix_before_def suffix_after_def ustr_def utf8_length_def)

lemma example_dest_exts:
  "ext_of cpython311 example_name_before = ustr ''.jpg''"
  "ext_of cpython311 example_name_after = ustr ''.png''"
  by (simp_all add: example_name_before_def example_name_after_def suffix_before_def
      suffix_after_def cpython311_def ascii_ext_def ascii_lower_def ustr_def Let_def)

lemma example_world_fields:
  "root_dir example_world = False" "folders example_world = {}"
  "saved example_world = Map.empty" "log example_world = Absent"
  "can_make_root example_world" "can_make_folder example_world n = (utf8_length n \<le> 255)"
  "can_save_image example_world d = (utf8_length (snd d) \<le> 255)"
  "can_save_log example_world lg"
  "photos example_world (before_path example_form) = Some 1"
  "photos example_world (after_path example_form) = Some 2"
  by (simp_all add: example_world_def example_form_def ustr_def)

lemma half_world_fields:
  "root_dir half_world = False" "folders half_world = {}"
  "saved half_world = Map.empty" "log half_world = Absent"
  "can_make_root half_world" "can_make_folder half_world n = (utf8_length n \<le> 255)"
  "can_save_image half_world d = (utf8_length (snd d) \<le> 255)"
  "photos half_world (before_path example_form) = Some 1"
  "photos half_world (after_path example_form) = None"
  by (simp_all add: half_world_def example_world_def example_form_def ustr_def)

lemma example_row: "row_of cpython311 example_clock example_form example_record = example_row"
  by (simp add: row_of_def example_row_def example_names)
     (simp add: example_record_def example_clock_def)

lemma example_row_ok: "list_all cell_ok example_row"
  by (simp add: example_row_def cell_ok_def illegal_char_def example_name_before_def
      example_name_after_def suffix_before_def suffix_after_def label_paid_def ustr_def)

lemma example_saves:
  "save_image_copy cpython311 (before_path example_form) (example_folder, example_name_before) w
     = (case photos w (before_path example_form) of
          None \<Rightarrow> Inl ImageOpenError
        | Some im \<Rightarrow>
            (if can_save_image w (example_folder, example_name_before)
             then Inr (w\<lparr>saved := (saved w)((example_folder, example_name_before) \<mapsto> (JPEG, im))\<rparr>)
             else Inl OSError))"
  "save_image_copy cpython311 (after_path example_form) (example_folder, example_name_after) w
     = (case photos w (after_path example_form) of
          None \<Rightarrow> Inl ImageOpenError
        | Some im \<Rightarrow>
            (if can_save_image w (example_folder, example_name_after)
             then Inr (w\<lparr>saved := (saved w)((example_folder, example_name_after) \<mapsto> (PNG, im))\<rparr>)
             else Inl OSError))"
  by (simp_all add: save_image_copy_def example_dest_exts Let_def split: option.split)
     (simp_all add: ustr_def)

lemma example_makedirs:
  "makedirs example_folder example_world
     = (None, example_world\<lparr>root_dir := True, folders := {example_folder}\<rparr>)"
  "makedirs example_folder half_world
     = (None, half_world\<lparr>root_dir := True, folders := {example_folder}\<rparr>)"
  by (simp_all add: makedirs_def Let_def example_world_fields half_world_fields
      example_lengths)

lemma example_append:
  assumes "log w = Absent" and "can_save_log w = (\<lambda>lg. True)"
  shows "append_excel_row example_row w
           = (None, w\<lparr>log := Sheet \<lparr>title = sheet_title, rows = [header_row, example_row]\<rparr>\<rparr>)"
  using assms
  by (simp add: append_excel_row_def ensure_excel_file_def example_row_ok)

lemma example_short:
  "\<not> (100 < length example_name_before \<or> 100 < length example_name_after)"
  by (simp add: example_lengths)

lemma example_run:
  "on_run cpython311 example_clock example_form example_world =
     (Saved, reset_inputs example_form,
      example_world
        \<lparr>root_dir := True,
         folders := {example_folder},
         saved := [(example_folder, example_name_before) \<mapsto> (JPEG, 1),
                   (example_folder, example_name_after) \<mapsto> (PNG, 2)],
         log := Sheet \<lparr>title = sheet_title, rows = [header_row, example_row]\<rparr>\<rparr>)"
proof -
  let ?w1 = "example_world\<lparr>root_dir := True, folders := {example_folder}\<rparr>"
  let ?w2 = "?w1\<lparr>saved := (saved ?w1)((example_folder, example_name_before) \<mapsto> (JPEG, 1))\<rparr>"
  let ?w3 = "?w2\<lparr>saved := (saved ?w2)((example_folder, example_name_after) \<mapsto> (PNG, 2))\<rparr>"
  let ?w4 = "?w3\<lparr>log := Sheet \<lparr>title = sheet_title, rows = [header_row, example_row]\<rparr>\<rparr>"
  have s1: "save_image_copy cpython311 (before_path example_form)
      (example_folder, example_name_before) ?w1 = Inr ?w2"
    by (simp add: example_saves(1) example_world_fields example_lengths)
  have s2: "save_image_copy cpython311 (after_path example_form)
      (example_folder, example_name_after) ?w2 = Inr ?w3"
    by (simp add: example_saves(2) example_world_fields example_lengths)
  have ap: "append_excel_row example_row ?w3 = (None, ?w4)"
    by (rule example_append) (simp_all add: example_world_def)
  have "on_run cpython311 example_clock example_form example_world
      = (Saved, reset_inputs example_form, ?w4)"
    using on_run_through
      [where now = example_clock and w = example_world, OF example_validate,
        unfolded example_names example_row, OF example_makedirs(1) example_short s1 s2 ap]
    by simp
  then show ?thesis
    by (simp add: example_world_fields)
qed






lemma long_strip: "strip long_name = long_name" "long_name \<noteq> []"
  by (simp_all add: long_name_def unicode_defs)

lemma long_validate: "validate_inputs cpython311 long_form = Inr long_record"
proof -
  have rc: "raw_customer_of long_form = ustr ''010-1234-5678''"
    by (simp add: raw_customer_of_def long_form_def example_form_def example_strips)
       (simp add: ustr_def)
  show ?thesis
    unfolding validate_inputs_def rc
    by (simp add: long_form_def long_record_def example_form_def example_record_def
        cpython311_def example_strips example_nonempty example_customer example_payment
        example_breed long_strip)
qed

lemma long_names:
  "folder_name long_record = long_folder"
  "100 < length (name_before cpython311 example_clock long_form long_record)"
  "utf8_length long_folder \<le> 255"
  by (simp_all add: long_folder_def long_record_def example_record_def example_clock_def
      long_name_def name_before_def unicode_defs folder_name_def prefix_of_def
      utf8_length_def)

lemma long_makedirs:
  "makedirs long_folder example_world
     = (None, example_world\<lparr>root_dir := True, folders := {long_folder}\<rparr>)"
  "makedirs long_folder readonly_world = (Some OSError, readonly_world)"
  by (simp_all add: makedirs_def Let_def example_world_fields long_names(3)
      readonly_world_def)


text \<open>
  C8. A successful submission appends exactly one row to the log, with its thirteen
  cells in the fixed order; a log that is absent is first created with the header row
  of thirteen cells; and the rows that were in the log stay as they are, at the front,
  whatever the submission does.
\<close>

theorem C8_one_row_appended:
  assumes "on_run pf now f w = (out, f', w')"
  shows
    "(out = Saved \<longrightarrow>
        (\<exists>v. validate_inputs pf f = Inr v
           \<and> (case log w of
                Absent \<Rightarrow>
                  log w' = Sheet \<lparr>title = sheet_title, rows = [header_row, row_of pf now f v]\<rparr>
              | Sheet wb \<Rightarrow> log w' = Sheet (wb\<lparr>rows := rows wb @ [row_of pf now f v]\<rparr>)
              | Corrupt \<Rightarrow> False)
           \<and> row_of pf now f v =
               [S (record_time now), S (customer_no v), S (v_owner_name v), S (v_dog_name v),
                S (breed v), S (v_style_today v), S (requirements v), S (v_notes v),
                S (aftercare v), N (payment_amount v), S (payment_label v),
                S (name_before pf now f v), S (name_after pf now f v)]))
     \<and> (\<forall>wb. log w = Sheet wb \<longrightarrow>
          (\<exists>wb'. log w' = Sheet wb' \<and> take (length (rows wb)) (rows wb') = rows wb))
     \<and> length header_row = 13"
proof (intro conjI impI allI)
  assume "out = Saved"
  with assms on_run_saved [of pf now f w f' w']
  obtain v where v: "validate_inputs pf f = Inr v"
    and a: "case log w of
                Absent \<Rightarrow>
                  log w' = Sheet \<lparr>title = sheet_title, rows = [header_row, row_of pf now f v]\<rparr>
              | Sheet wb \<Rightarrow> log w' = Sheet (wb\<lparr>rows := rows wb @ [row_of pf now f v]\<rparr>)
              | Corrupt \<Rightarrow> False"
    by blast
  have "row_of pf now f v =
               [S (record_time now), S (customer_no v), S (v_owner_name v), S (v_dog_name v),
                S (breed v), S (v_style_today v), S (requirements v), S (v_notes v),
                S (aftercare v), N (payment_amount v), S (payment_label v),
                S (name_before pf now f v), S (name_after pf now f v)]"
    by (simp add: row_of_def)
  with v a show "\<exists>v. validate_inputs pf f = Inr v
           \<and> (case log w of
                Absent \<Rightarrow>
                  log w' = Sheet \<lparr>title = sheet_title, rows = [header_row, row_of pf now f v]\<rparr>
              | Sheet wb \<Rightarrow> log w' = Sheet (wb\<lparr>rows := rows wb @ [row_of pf now f v]\<rparr>)
              | Corrupt \<Rightarrow> False)
           \<and> row_of pf now f v =
               [S (record_time now), S (customer_no v), S (v_owner_name v), S (v_dog_name v),
                S (breed v), S (v_style_today v), S (requirements v), S (v_notes v),
                S (aftercare v), N (payment_amount v), S (payment_label v),
                S (name_before pf now f v), S (name_after pf now f v)]"
    by blast
next
  fix wb
  assume "log w = Sheet wb"
  with assms show "\<exists>wb'. log w' = Sheet wb' \<and> take (length (rows wb)) (rows wb') = rows wb"
    by (rule on_run_keeps_rows)
next
  show "length header_row = 13"
    by (simp add: header_row_def)
qed

theorem C8_witness:
  "on_run cpython311 example_clock example_form example_world
     = (Saved, reset_inputs example_form,
        example_world
          \<lparr>root_dir := True,
           folders := {example_folder},
           saved := [(example_folder, example_name_before) \<mapsto> (JPEG, 1),
                     (example_folder, example_name_after) \<mapsto> (PNG, 2)],
           log := Sheet \<lparr>title = sheet_title, rows = [header_row, example_row]\<rparr>\<rparr>)
   \<and> log example_world = Absent
   \<and> row_of cpython311 example_clock example_form example_record = example_row
   \<and> length example_row = 13"
proof -
  have "log example_world = Absent"
    by (simp add: example_world_def)
  moreover from C8_one_row_appended [OF example_run] example_validate
  have "row_of cpython311 example_clock example_form example_record =
          [S (record_time example_clock), S (customer_no example_record),
           S (v_owner_name example_record), S (v_dog_name example_record),
           S (breed example_record), S (v_style_today example_record),
           S (requirements example_record), S (v_notes example_record),
           S (aftercare example_record), N (payment_amount example_record),
           S (payment_label example_record),
           S (name_before cpython311 example_clock example_form example_record),
           S (name_after cpython311 example_clock example_form example_record)]"
    by auto
  then have "length (row_of cpython311 example_clock example_form example_record) = 13"
    by simp
  ultimately show ?thesis
    using example_run example_row by simp
qed

text \<open>
  C3. The claim: when a derived file name is longer than 100 characters the submission
  is rejected, no files are written, and nothing at all changes in the file system or
  the log. The folder of the customer is made before the names are measured: the
  submission with the owner name of ninety letters is rejected, and the output
  directory, empty before, holds the new folder afterwards.
\<close>

theorem C3_counterexample:
  "on_run cpython311 example_clock long_form example_world
     = (Rejected FilenameTooLong, long_form,
        example_world\<lparr>root_dir := True, folders := {long_folder}\<rparr>)
   \<and> folders example_world = {}
   \<and> example_world\<lparr>root_dir := True, folders := {long_folder}\<rparr> \<noteq> example_world"
proof -
  have "on_run cpython311 example_clock long_form example_world
      = (Rejected FilenameTooLong, long_form,
         example_world\<lparr>root_dir := True, folders := {long_folder}\<rparr>)"
    using long_validate long_names(2)
    by (simp add: on_run_too_long long_names(1) long_makedirs)
  moreover have "folders example_world = {}"
    by (simp add: example_world_def)
  moreover have "example_world\<lparr>root_dir := True, folders := {long_folder}\<rparr> \<noteq> example_world"
  proof
    assume "example_world\<lparr>root_dir := True, folders := {long_folder}\<rparr> = example_world"
    then have "root_dir (example_world\<lparr>root_dir := True, folders := {long_folder}\<rparr>)
        = root_dir example_world"
      by (rule arg_cong)
    then show False
      by (simp add: example_world_def)
  qed
  ultimately show ?thesis by simp
qed

text \<open>
  C3, as amended: when a validated submission derives a file name longer than 100
  characters, no image is written, the log and the form stay as they were, and the
  submission ends in one of two ways. If the folder of the customer is there or can be
  made, the submission is rejected for the length of the name, and the output root
  and the folder exist afterwards. If making the folder raises an error, the submission
  ends in the report of an unexpected error instead, with nothing changed but, at
  most, the output root made.
\<close>

theorem C3_long_name_rejected_after_folder_made:
  assumes "validate_inputs pf f = Inr v"
    and "100 < length (name_before pf now f v) \<or> 100 < length (name_after pf now f v)"
  shows "(on_run pf now f w
            = (Rejected FilenameTooLong, f,
               w\<lparr>root_dir := True, folders := insert (folder_name v) (folders w)\<rparr>)
          \<or> on_run pf now f w = (Unexpected OSError, f, w)
          \<or> on_run pf now f w = (Unexpected OSError, f, w\<lparr>root_dir := True\<rparr>))
         \<and> ((root_dir w \<or> can_make_root w)
              \<and> (folder_name v \<in> folders w \<or> can_make_folder w (folder_name v)) \<longrightarrow>
             on_run pf now f w
               = (Rejected FilenameTooLong, f,
                  w\<lparr>root_dir := True, folders := insert (folder_name v) (folders w)\<rparr>))"
proof -
  obtain e w1 where mk: "makedirs (folder_name v) w = (e, w1)"
    by (cases "makedirs (folder_name v) w")
  have run: "on_run pf now f w =
           (case e of Some x \<Rightarrow> (Unexpected x, f, w1) | None \<Rightarrow> (Rejected FilenameTooLong, f, w1))"
    using on_run_too_long [OF assms, of w] mk by (simp split: option.split)
  from makedirs_result [OF mk] run
  have 1: "on_run pf now f w
            = (Rejected FilenameTooLong, f,
               w\<lparr>root_dir := True, folders := insert (folder_name v) (folders w)\<rparr>)
          \<or> on_run pf now f w = (Unexpected OSError, f, w)
          \<or> on_run pf now f w = (Unexpected OSError, f, w\<lparr>root_dir := True\<rparr>)"
    by auto
  have 2: "on_run pf now f w
               = (Rejected FilenameTooLong, f,
                  w\<lparr>root_dir := True, folders := insert (folder_name v) (folders w)\<rparr>)"
    if "(root_dir w \<or> can_make_root w)
        \<and> (folder_name v \<in> folders w \<or> can_make_folder w (folder_name v))"
  proof -
    from that mk have "e = None"
      by (auto simp: makedirs_def Let_def split: if_splits)
    with makedirs_result [OF mk] run show ?thesis by auto
  qed
  from 1 2 show ?thesis by blast
qed

theorem C3_witness:
  "validate_inputs cpython311 long_form = Inr long_record
   \<and> 100 < length (name_before cpython311 example_clock long_form long_record)
   \<and> can_make_root example_world
   \<and> can_make_folder example_world (folder_name long_record)
   \<and> on_run cpython311 example_clock long_form example_world
       = (Rejected FilenameTooLong, long_form,
          example_world\<lparr>root_dir := True,
                         folders := insert (folder_name long_record) (folders example_world)\<rparr>)
   \<and> on_run cpython311 example_clock long_form readonly_world
       = (Unexpected OSError, long_form, readonly_world)"
proof -
  have ok: "can_make_root example_world" "can_make_folder example_world (folder_name long_record)"
    by (simp_all add: example_world_fields long_names)
  have ro: "on_run cpython311 example_clock long_form readonly_world
       = (Unexpected OSError, long_form, readonly_world)"
    using long_validate long_names(2)
    by (simp add: on_run_too_long long_names(1) long_makedirs)
  from C3_long_name_rejected_after_folder_made
    [where pf = cpython311 and f = long_form and v = long_record and now = example_clock
      and w = example_world, OF long_validate]
    long_names(2) ok
  have "on_run cpython311 example_clock long_form example_world
       = (Rejected FilenameTooLong, long_form,
          example_world\<lparr>root_dir := True,
                         folders := insert (folder_name long_record) (folders example_world)\<rparr>)"
    by blast
  with ok ro long_validate long_names(2) show ?thesis by simp
qed




section \<open>The photo paths of the form\<close>

text \<open>
  The hypothesis on the extensions in C2 is what the form always satisfies: the paths
  are empty at the start and after a reset, and \<^verbatim>\<open>set_photo\<close> stores only a path with one
  of the three extensions.
\<close>

lemma set_photo_ok:
  assumes "photo_ok pf (before_path f)" and "photo_ok pf (after_path f)"
  shows "photo_ok pf (before_path (set_photo pf w wh path f))
         \<and> photo_ok pf (after_path (set_photo pf w wh path f))"
  using assms by (cases wh) (auto simp: set_photo_def photo_ok_def)

lemma reset_inputs_ok:
  "photo_ok pf (before_path (reset_inputs f)) \<and> photo_ok pf (after_path (reset_inputs f))"
  by (simp add: reset_inputs_def photo_ok_def)

lemma photo_ok_ext:
  assumes "photo_ok pf p" and "p \<noteq> []"
  shows "ext_of pf p \<in> set allowed_exts"
  using assms by (simp add: photo_ok_def)


end
